theory Spec2Isabelle
  imports Complex_Main
begin

section \<open>Values the queries work on\<close>

text \<open>
  The services build SQL text and hand it to PostgreSQL/TimescaleDB. The embedding
  evaluates that SQL on tables held as lists of rows: \<open>WHERE\<close> is \<open>filter\<close>,
  \<open>SELECT DISTINCT\<close> is \<open>remdups\<close>, \<open>COUNT\<close> is \<open>length\<close>. A \<open>TIMESTAMP\<close> is the
  number of seconds since the epoch, \<open>INTERVAL 'n days'\<close> is \<open>n * 86400\<close> seconds and
  \<open>t::DATE\<close> is the day number \<open>t div 86400\<close>.
\<close>

type_synonym timestamp = int

definition days :: "int \<Rightarrow> int" where
  "days n = n * 86400"

definition to_date :: "timestamp \<Rightarrow> int" where
  "to_date t = t div 86400"

text \<open>
  \<open>String.prototype.toLowerCase\<close> and SQL \<open>LOWER\<close>, on the ASCII letters (logins,
  repository names and states are ASCII).
\<close>

definition lower_char :: "char \<Rightarrow> char" where
  "lower_char c =
     (case map_of (zip ''ABCDEFGHIJKLMNOPQRSTUVWXYZ'' ''abcdefghijklmnopqrstuvwxyz'') c of
        Some d \<Rightarrow> d
      | None \<Rightarrow> c)"

definition toLowerCase :: "string \<Rightarrow> string" where
  "toLowerCase s = map lower_char s"

text \<open>\<open>s.split(",")\<close>: the empty string splits into one empty piece.\<close>

fun split :: "char \<Rightarrow> string \<Rightarrow> string list" where
  "split sep [] = [[]]"
| "split sep (c # cs) =
     (if c = sep then [] # split sep cs
      else (case split sep cs of
              w # ws \<Rightarrow> (c # w) # ws
            | [] \<Rightarrow> [[c]]))"

text \<open>An optional string of a DTO is truthy when it is defined and not empty.\<close>

fun truthy :: "string option \<Rightarrow> bool" where
  "truthy None = False"
| "truthy (Some s) = (s \<noteq> [])"

datatype OrderDirectionEnum = ASC | DESC

datatype error = BadRequestException | NotFoundException | TypeError | QueryFailedError

text \<open>
  Modelled from the spec: \<open>GetPrevDateISOString\<close> (common/util/datetimes) is not
  under src/. The anchor "defaults to now but may be offset by a caller-supplied
  number of days in the past"; the clock reading \<open>now\<close> is a parameter.
\<close>

definition GetPrevDateISOString :: "timestamp \<Rightarrow> int \<Rightarrow> timestamp" where
  "GetPrevDateISOString now prevDays = now - days prevDays"

section \<open>The pull request events table\<close>

text \<open>
  Modelled from the spec: the entity \<open>DbPullRequestGitHubEvents\<close> is not under src/.
  The record has the columns the queries of the service name, each holding a value
  (no NULL). \<open>repo_id\<close> is kept as the decimal text the request's \<open>repoIds\<close> are
  compared with.
\<close>

record DbPullRequestGitHubEvents =
  event_id :: int
  pr_number :: int
  pr_state :: string
  pr_action :: string
  pr_is_draft :: bool
  pr_is_merged :: bool
  pr_author_login :: string
  pr_author_id :: int
  pr_created_at :: timestamp
  pr_merged_at :: timestamp
  pr_active_lock_reason :: string
  repo_name :: string
  repo_id :: string
  event_time :: timestamp

text \<open>
  The two window conditions every query of the service starts from:
  \<open>'startDate'::TIMESTAMP >= event_time\<close> and
  \<open>'startDate'::TIMESTAMP - INTERVAL 'range days' <= event_time\<close>.
\<close>

definition in_window :: "timestamp \<Rightarrow> int \<Rightarrow> DbPullRequestGitHubEvents \<Rightarrow> bool" where
  "in_window startDate rng e =
     (startDate \<ge> event_time e \<and> startDate - days rng \<le> event_time e)"

text \<open>\<open>LOWER(pr_author_login) = LOWER(:author)\<close>\<close>

definition author_is :: "string \<Rightarrow> DbPullRequestGitHubEvents \<Rightarrow> bool" where
  "author_is author e = (toLowerCase (pr_author_login e) = toLowerCase author)"

subsection \<open>findCountByPrAuthor\<close>

text \<open>
  \<open>counterBaseQueryBuilder\<close> selects \<open>COUNT(DISTINCT pr_number)\<close> over the window;
  \<open>findCountByPrAuthor\<close> adds the author condition (the parameter is
  \<open>author.toLowerCase()\<close>) and parses the count.
\<close>

definition counterBaseQueryBuilder ::
  "timestamp \<Rightarrow> int \<Rightarrow> int \<Rightarrow> (DbPullRequestGitHubEvents \<Rightarrow> bool) list" where
  "counterBaseQueryBuilder now rng prevDay =
     (let startDate = GetPrevDateISOString now prevDay
      in [in_window startDate rng])"

definition count_distinct :: "('r \<Rightarrow> 'c) \<Rightarrow> 'r list \<Rightarrow> nat" where
  "count_distinct col rows = length (remdups (map col rows))"

definition findCountByPrAuthor ::
  "DbPullRequestGitHubEvents list \<Rightarrow> timestamp \<Rightarrow> string \<Rightarrow> int \<Rightarrow> int \<Rightarrow> nat" where
  "findCountByPrAuthor table now author rng prevDaysStartDate =
     (let queryBuilder = counterBaseQueryBuilder now rng prevDaysStartDate
                         @ [author_is (toLowerCase author)]
      in count_distinct pr_number (filter (\<lambda>e. list_all (\<lambda>p. p e) queryBuilder) table))"

subsection \<open>Latest state: ROW_NUMBER() OVER (PARTITION BY ... ORDER BY event_time ...)\<close>

text \<open>
  \<open>ORDER BY event_time ASC\<close> sorts by the time, \<open>DESC\<close> by its negation.
\<close>

fun order_key :: "OrderDirectionEnum \<Rightarrow> timestamp \<Rightarrow> int" where
  "order_key ASC t = t"
| "order_key DESC t = - t"

text \<open>
  The window function numbers the rows of each partition from 1 in the window's order.
  SQL fixes no order among rows of a partition that tie on the \<open>ORDER BY\<close> key: the
  executor numbers them in the order they reach it. In the model that order is the
  order of the input list, so the list stands for the executor's choice. A row's number
  is one more than the number of rows of its partition that come before it: rows seen
  earlier (\<open>pre\<close>) with a key not greater, rows seen later with a smaller key.
\<close>

fun number_rows :: "('r \<Rightarrow> 'k) \<Rightarrow> ('r \<Rightarrow> int) \<Rightarrow> 'r list \<Rightarrow> 'r list \<Rightarrow> ('r \<times> nat) list" where
  "number_rows key sk pre [] = []"
| "number_rows key sk pre (x # xs) =
     (x, Suc (length [y \<leftarrow> pre. key y = key x \<and> sk y \<le> sk x]
              + length [y \<leftarrow> xs. key y = key x \<and> sk y < sk x]))
     # number_rows key sk (pre @ [x]) xs"

definition ROW_NUMBER ::
  "('r \<Rightarrow> 'k) \<Rightarrow> ('r \<Rightarrow> timestamp) \<Rightarrow> OrderDirectionEnum \<Rightarrow> 'r list \<Rightarrow> ('r \<times> nat) list" where
  "ROW_NUMBER partition_by order_by direction rows =
     number_rows partition_by (\<lambda>r. order_key direction (order_by r)) [] rows"

text \<open>\<open>.orderBy("event_time", order)\<close> on a CTE: a stable sort of its rows.\<close>

definition orderBy ::
  "('r \<Rightarrow> timestamp) \<Rightarrow> OrderDirectionEnum \<Rightarrow> ('r \<times> nat) list \<Rightarrow> ('r \<times> nat) list" where
  "orderBy col direction cte = sort_key (\<lambda>(r, n). order_key direction (col r)) cte"

text \<open>\<open>FROM CTE WHERE row_num = 1\<close>, projected to the columns of the row.\<close>

definition row_num_1 :: "('r \<times> nat) list \<Rightarrow> 'r list" where
  "row_num_1 cte = map fst (filter (\<lambda>(r, row_num). row_num = 1) cte)"

definition andWhere :: "('r \<Rightarrow> bool) list \<Rightarrow> 'r \<Rightarrow> bool" where
  "andWhere conditions r = list_all (\<lambda>p. p r) conditions"

definition pr_partition :: "DbPullRequestGitHubEvents \<Rightarrow> int \<times> string" where
  "pr_partition e = (pr_number e, repo_name e)"

definition basePrAuthorCteBuilder ::
  "DbPullRequestGitHubEvents list \<Rightarrow> timestamp \<Rightarrow> string \<Rightarrow> int \<Rightarrow> int
   \<Rightarrow> (DbPullRequestGitHubEvents \<times> nat) list" where
  "basePrAuthorCteBuilder table now author rng prevDays =
     (let startDate = GetPrevDateISOString now prevDays
      in ROW_NUMBER pr_partition event_time DESC
           (filter (andWhere [author_is (toLowerCase author), in_window startDate rng]) table))"

definition repo_is :: "string \<Rightarrow> DbPullRequestGitHubEvents \<Rightarrow> bool" where
  "repo_is repo e = (toLowerCase (repo_name e) = toLowerCase repo)"

definition baseRepoCteBuilder ::
  "DbPullRequestGitHubEvents list \<Rightarrow> timestamp \<Rightarrow> string \<Rightarrow> int \<Rightarrow> int
   \<Rightarrow> (DbPullRequestGitHubEvents \<times> nat) list" where
  "baseRepoCteBuilder table now repo rng prevDays =
     (let startDate = GetPrevDateISOString now prevDays
      in ROW_NUMBER pr_partition event_time DESC
           (filter (andWhere [repo_is (toLowerCase repo), in_window startDate rng]) table))"

subsection \<open>Pages\<close>

text \<open>
  Modelled from the spec: \<open>PageOptionsDto\<close>, \<open>PageMetaDto\<close> and \<open>PageDto\<close>
  (common/dtos) are not under src/. A page result is "items, itemCount: total matching
  rows ignoring pagination, page metadata derived from itemCount/limit/skip": the
  metadata record keeps the item count and the limit and skip of the options it was
  built from.
\<close>

record PageOptionsDto =
  skip :: nat
  limit :: nat
  range_days :: int
  prev_days_start_date :: int
  orderDirection :: OrderDirectionEnum

record PageMetaDto =
  itemCount :: nat
  meta_limit :: nat
  meta_skip :: nat

record 'a PageDto =
  data :: "'a list"
  meta :: PageMetaDto

definition new_PageMetaDto :: "nat \<Rightarrow> 'z PageOptionsDto_scheme \<Rightarrow> PageMetaDto" where
  "new_PageMetaDto n pageOptionsDto =
     \<lparr>itemCount = n, meta_limit = limit pageOptionsDto, meta_skip = skip pageOptionsDto\<rparr>"

text \<open>
  \<open>.offset(skip).limit(limit)\<close>: the query builder writes \<open>LIMIT\<close> only for a limit
  that is not 0, so a limit of 0 is no limit.
\<close>

definition offset_limit :: "nat \<Rightarrow> nat \<Rightarrow> 'r list \<Rightarrow> 'r list" where
  "offset_limit m n rows = (if n = 0 then drop m rows else take n (drop m rows))"

text \<open>
  \<open>execCommonTableExpression\<close> runs two queries over the same CTE: the items
  (\<open>row_num = 1\<close>, offset, limit) and the counter (\<open>COUNT( * )\<close> where \<open>row_num = 1\<close>).
  Both read the same table.
\<close>

definition execCommonTableExpression ::
  "'z PageOptionsDto_scheme \<Rightarrow> ('r \<times> nat) list \<Rightarrow> 'r PageDto" where
  "execCommonTableExpression pageOptionsDto cte =
     (let cteCounterResult = length (row_num_1 cte);
          itemCount = cteCounterResult;
          entities = offset_limit (skip pageOptionsDto) (limit pageOptionsDto) (row_num_1 cte);
          pageMetaDto = new_PageMetaDto itemCount pageOptionsDto
      in \<lparr>data = entities, meta = pageMetaDto\<rparr>)"

subsection \<open>Velocity\<close>

text \<open>
  \<open>AVG\<close> skips NULLs and is NULL over no value. \<open>AVG\<close> of integers (a difference of
  two dates is an integer number of days) is a \<open>numeric\<close>, here an exact rational;
  \<open>::INTEGER\<close> on a \<open>numeric\<close> rounds to the nearest integer, ties away from zero.
\<close>

fun non_null :: "'a option list \<Rightarrow> 'a list" where
  "non_null [] = []"
| "non_null (None # vs) = non_null vs"
| "non_null (Some x # vs) = x # non_null vs"

definition AVG :: "int option list \<Rightarrow> rat option" where
  "AVG vs =
     (let xs = non_null vs
      in if xs = [] then None else Some (of_int (sum_list xs) / of_int (int (length xs))))"

definition COALESCE :: "'a option \<Rightarrow> 'a \<Rightarrow> 'a" where
  "COALESCE v d = (case v of None \<Rightarrow> d | Some x \<Rightarrow> x)"

definition to_INTEGER :: "rat \<Rightarrow> int" where
  "to_INTEGER q = (if 0 \<le> q then \<lfloor>q + 1 / 2\<rfloor> else - \<lfloor>- q + 1 / 2\<rfloor>)"

definition days_to_merge :: "DbPullRequestGitHubEvents \<Rightarrow> int" where
  "days_to_merge e = to_date (pr_merged_at e) - to_date (pr_created_at e)"

definition execVelocityCommonTableExpression :: "(DbPullRequestGitHubEvents \<times> nat) list \<Rightarrow> int" where
  "execVelocityCommonTableExpression cte =
     to_INTEGER (COALESCE
       (AVG (map (\<lambda>e. Some (days_to_merge e)) (filter pr_is_merged (row_num_1 cte)))) 0)"

definition findVelocityByPrAuthor ::
  "DbPullRequestGitHubEvents list \<Rightarrow> timestamp \<Rightarrow> string \<Rightarrow> int \<Rightarrow> int \<Rightarrow> int" where
  "findVelocityByPrAuthor table now author rng prevDaysStartDate =
     execVelocityCommonTableExpression (basePrAuthorCteBuilder table now author rng prevDaysStartDate)"

definition findVelocityByRepoName ::
  "DbPullRequestGitHubEvents list \<Rightarrow> timestamp \<Rightarrow> string \<Rightarrow> int \<Rightarrow> int \<Rightarrow> int" where
  "findVelocityByRepoName table now repo rng prevDaysStartDate =
     execVelocityCommonTableExpression (baseRepoCteBuilder table now repo rng prevDaysStartDate)"

subsection \<open>Listing: findAllByPrAuthor and findAllWithFilters\<close>

text \<open>
  The CTE of \<open>findAllByPrAuthor\<close>: the window numbers each partition in the
  caller's \<open>orderDirection\<close>.
\<close>

definition findAllByPrAuthor_cte ::
  "DbPullRequestGitHubEvents list \<Rightarrow> timestamp \<Rightarrow> string \<Rightarrow> 'z PageOptionsDto_scheme
   \<Rightarrow> (DbPullRequestGitHubEvents \<times> nat) list" where
  "findAllByPrAuthor_cte table now author pageOptionsDto =
     (let startDate = GetPrevDateISOString now (prev_days_start_date pageOptionsDto);
          rng = range_days pageOptionsDto;
          order = orderDirection pageOptionsDto
      in orderBy event_time order
           (ROW_NUMBER pr_partition event_time order
              (filter (andWhere [author_is (toLowerCase author), in_window startDate rng]) table)))"

definition findAllByPrAuthor ::
  "DbPullRequestGitHubEvents list \<Rightarrow> timestamp \<Rightarrow> string \<Rightarrow> 'z PageOptionsDto_scheme
   \<Rightarrow> DbPullRequestGitHubEvents PageDto" where
  "findAllByPrAuthor table now author pageOptionsDto =
     (let cteBuilder = findAllByPrAuthor_cte table now author pageOptionsDto
      in execCommonTableExpression pageOptionsDto cteBuilder)"

text \<open>
  Modelled from the spec: \<open>PullRequestPageOptionsDto\<close> is not under src/; its
  fields are the ones \<open>findAllWithFilters\<close> reads. An optional field that is
  \<open>undefined\<close> is \<open>None\<close>.
\<close>

record PullRequestPageOptionsDto = PageOptionsDto +
  distinctAuthors :: bool
  contributor :: "string option"
  filter_opt :: "string option"
  topic :: "string option"
  repo :: "string option"
  repoIds :: "string option"
  listId :: "string option"
  status :: "string option"

text \<open>
  The two collaborators (spec section 6) are parameters. \<open>repoService\<close> maps the
  search options \<open>(filter, topic, limit, skip, range)\<close> to the full names of the
  repositories found; \<open>userListService\<close> maps a list id to the usernames of its
  contributors, each possibly undefined.
\<close>

type_synonym RepoSearchOptionsDto = "string option \<times> string option \<times> nat \<times> nat \<times> int"
type_synonym RepoService = "RepoSearchOptionsDto \<Rightarrow> string list"
type_synonym UserListService = "string \<Rightarrow> string option list"

text \<open>\<open>if (x) { builder.andWhere(c(x)) }\<close> for an optional string \<open>x\<close>.\<close>

fun when_set :: "string option \<Rightarrow> (string \<Rightarrow> 'c) \<Rightarrow> 'c list" where
  "when_set None c = []"
| "when_set (Some x) c = (if x = [] then [] else [c x])"

text \<open>\<open>LOWER(repo_name) IN (:...repoNames)\<close>\<close>

definition repo_name_in :: "string list \<Rightarrow> DbPullRequestGitHubEvents \<Rightarrow> bool" where
  "repo_name_in repoNames e = (toLowerCase (repo_name e) \<in> set repoNames)"

text \<open>\<open>repo_id IN (:...repoIds)\<close>\<close>

definition repo_id_in :: "string list \<Rightarrow> DbPullRequestGitHubEvents \<Rightarrow> bool" where
  "repo_id_in ids e = (repo_id e \<in> set ids)"

text \<open>
  \<open>LOWER(pr_author_login) IN (:...userNames)\<close>; an undefined user name is a NULL
  parameter, which no login equals.
\<close>

definition author_in :: "string option list \<Rightarrow> DbPullRequestGitHubEvents \<Rightarrow> bool" where
  "author_in userNames e = (Some (toLowerCase (pr_author_login e)) \<in> set userNames)"

text \<open>\<open>pr_state = LOWER(:status)\<close>\<close>

definition status_is :: "string \<Rightarrow> DbPullRequestGitHubEvents \<Rightarrow> bool" where
  "status_is st e = (pr_state e = toLowerCase st)"

text \<open>The conditions \<open>findAllWithFilters\<close> puts on the CTE, in the order it adds them.\<close>

definition findAllWithFilters_where ::
  "timestamp \<Rightarrow> RepoService \<Rightarrow> UserListService \<Rightarrow> 'z PullRequestPageOptionsDto_scheme
   \<Rightarrow> (DbPullRequestGitHubEvents \<Rightarrow> bool) list" where
  "findAllWithFilters_where now repoService userListService pageOptionsDto =
     (let startDate = GetPrevDateISOString now (prev_days_start_date pageOptionsDto);
          rng = range_days pageOptionsDto
      in [in_window startDate rng]
         @ when_set (contributor pageOptionsDto) author_is
         @ (if truthy (filter_opt pageOptionsDto) \<or> truthy (topic pageOptionsDto)
            then [repo_name_in (map toLowerCase
                    (repoService (filter_opt pageOptionsDto, topic pageOptionsDto, 50, 0, rng)))]
            else [])
         @ when_set (repo pageOptionsDto) (\<lambda>r. repo_name_in (split CHR '','' (toLowerCase r)))
         @ when_set (repoIds pageOptionsDto) (\<lambda>ids. repo_id_in (split CHR '','' ids))
         @ when_set (listId pageOptionsDto)
             (\<lambda>l. author_in (map (map_option toLowerCase) (userListService l)))
         @ when_set (status pageOptionsDto) status_is)"

definition author_repo_partition :: "DbPullRequestGitHubEvents \<Rightarrow> string \<times> string" where
  "author_repo_partition e = (pr_author_login e, repo_name e)"

definition findAllWithFilters_cte ::
  "DbPullRequestGitHubEvents list \<Rightarrow> timestamp \<Rightarrow> RepoService \<Rightarrow> UserListService
   \<Rightarrow> 'z PullRequestPageOptionsDto_scheme \<Rightarrow> (DbPullRequestGitHubEvents \<times> nat) list" where
  "findAllWithFilters_cte table now repoService userListService pageOptionsDto =
     (let order = orderDirection pageOptionsDto;
          rows = filter (andWhere
                   (findAllWithFilters_where now repoService userListService pageOptionsDto)) table
      in orderBy event_time order
           (if distinctAuthors pageOptionsDto
            then ROW_NUMBER author_repo_partition event_time order rows
            else ROW_NUMBER pr_partition event_time order rows))"

definition findAllWithFilters ::
  "DbPullRequestGitHubEvents list \<Rightarrow> timestamp \<Rightarrow> RepoService \<Rightarrow> UserListService
   \<Rightarrow> 'z PullRequestPageOptionsDto_scheme \<Rightarrow> DbPullRequestGitHubEvents PageDto" where
  "findAllWithFilters table now repoService userListService pageOptionsDto =
     execCommonTableExpression pageOptionsDto
       (findAllWithFilters_cte table now repoService userListService pageOptionsDto)"

subsection \<open>Statistics and histograms\<close>

text \<open>
  Modelled from the spec: the entity \<open>DbPullRequestGitHubEventsHistogram\<close> is not
  under src/. Its fields are the columns the two queries select; a column a query
  does not select is \<open>None\<close>.
\<close>

record DbPullRequestGitHubEventsHistogram =
  bucket :: "timestamp option"
  prs_count :: nat
  accepted_prs :: nat
  open_prs :: "nat option"
  closed_prs :: nat
  draft_prs :: nat
  active_prs :: nat
  spam_prs :: nat
  pr_velocity :: int

text \<open>\<open>count(CASE WHEN c THEN 1 END)\<close>\<close>

definition count_when :: "('r \<Rightarrow> bool) \<Rightarrow> 'r list \<Rightarrow> nat" where
  "count_when c rows = length (filter c rows)"

definition action_is :: "string \<Rightarrow> DbPullRequestGitHubEvents \<Rightarrow> bool" where
  "action_is a e = (toLowerCase (pr_action e) = a)"

text \<open>
  \<open>COALESCE(AVG(CASE WHEN pr_is_merged = true THEN pr_merged_at::DATE -
  pr_created_at::DATE END), 0)::INTEGER\<close>
\<close>

definition pr_velocity_of :: "DbPullRequestGitHubEvents list \<Rightarrow> int" where
  "pr_velocity_of rows =
     to_INTEGER (COALESCE
       (AVG (map (\<lambda>e. if pr_is_merged e then Some (days_to_merge e) else None) rows)) 0)"

text \<open>
  \<open>findPrStatsByRepo\<close>: an aggregate query without \<open>GROUP BY\<close> returns one row
  whatever the CTE holds, so the \<open>NotFoundException\<close> of the source is never thrown.
\<close>

definition findPrStatsByRepo ::
  "DbPullRequestGitHubEvents list \<Rightarrow> timestamp \<Rightarrow> string \<Rightarrow> int \<Rightarrow> int
   \<Rightarrow> error + DbPullRequestGitHubEventsHistogram" where
  "findPrStatsByRepo table now repoName rng prevDaysStartDate =
     (let rows = row_num_1 (baseRepoCteBuilder table now repoName rng prevDaysStartDate)
      in Inr \<lparr>bucket = None,
              prs_count = length rows,
              accepted_prs = count_when (\<lambda>e. action_is ''closed'' e \<and> pr_is_merged e) rows,
              open_prs = Some (count_when (\<lambda>e. action_is ''opened'' e \<and> \<not> pr_is_draft e) rows),
              closed_prs = count_when (\<lambda>e. action_is ''closed'' e \<and> \<not> pr_is_merged e) rows,
              draft_prs = count_when (\<lambda>e. action_is ''opened'' e \<and> pr_is_draft e) rows,
              active_prs = count_when (action_is ''opened'') rows,
              spam_prs = count_when (\<lambda>e. pr_active_lock_reason e = ''spam'') rows,
              pr_velocity = pr_velocity_of rows\<rparr>)"

text \<open>
  \<open>time_bucket('w day', t)\<close> of TimescaleDB: the start of the bucket of width \<open>w\<close>
  days that holds \<open>t\<close>, the buckets being aligned to the function's fixed origin,
  2000-01-03 00:00:00 (946857600 seconds after the epoch).
\<close>

definition time_bucket_origin :: timestamp where
  "time_bucket_origin = 946857600"

definition time_bucket :: "int \<Rightarrow> timestamp \<Rightarrow> timestamp" where
  "time_bucket w t =
     time_bucket_origin + ((t - time_bucket_origin) div days w) * days w"

text \<open>\<open>GROUP BY bucket ORDER BY bucket order\<close>: one group per distinct bucket.\<close>

fun order_buckets :: "OrderDirectionEnum \<Rightarrow> timestamp list \<Rightarrow> timestamp list" where
  "order_buckets ASC bs = sort bs"
| "order_buckets DESC bs = rev (sort bs)"

definition group_by_bucket ::
  "('r \<Rightarrow> timestamp) \<Rightarrow> OrderDirectionEnum \<Rightarrow> 'r list \<Rightarrow> (timestamp \<times> 'r list) list" where
  "group_by_bucket bucket_of order rows =
     map (\<lambda>b. (b, filter (\<lambda>r. bucket_of r = b) rows))
       (order_buckets order (remdups (map bucket_of rows)))"

text \<open>
  Modelled from the spec: \<open>PullRequestHistogramDto\<close> is not under src/; its fields
  are the ones \<open>genPrHistogram\<close> reads.
\<close>

record PullRequestHistogramDto =
  contributor :: "string option"
  repo :: "string option"
  topic :: "string option"
  filter_opt :: "string option"
  repoIds :: "string option"
  orderDirection :: OrderDirectionEnum
  range_days :: int
  prev_days_start_date :: int
  width :: int

text \<open>The conditions \<open>genPrHistogram\<close> puts on its CTE, in the order it adds them.\<close>

definition genPrHistogram_where ::
  "timestamp \<Rightarrow> RepoService \<Rightarrow> PullRequestHistogramDto
   \<Rightarrow> (DbPullRequestGitHubEvents \<Rightarrow> bool) list" where
  "genPrHistogram_where now repoService options =
     (let rng = PullRequestHistogramDto.range_days options;
          startDate = GetPrevDateISOString now
                        (PullRequestHistogramDto.prev_days_start_date options)
      in [in_window startDate rng]
         @ when_set (PullRequestHistogramDto.contributor options) author_is
         @ (if truthy (PullRequestHistogramDto.filter_opt options)
               \<or> truthy (PullRequestHistogramDto.topic options)
            then [repo_name_in (map toLowerCase
                    (repoService (PullRequestHistogramDto.filter_opt options,
                                  PullRequestHistogramDto.topic options, 50, 0, rng)))]
            else [])
         @ when_set (PullRequestHistogramDto.repo options)
             (\<lambda>r. repo_name_in (split CHR '','' (toLowerCase r)))
         @ when_set (PullRequestHistogramDto.repoIds options)
             (\<lambda>ids. repo_id_in (split CHR '','' ids)))"

definition genPrHistogram_cte ::
  "DbPullRequestGitHubEvents list \<Rightarrow> timestamp \<Rightarrow> RepoService \<Rightarrow> PullRequestHistogramDto
   \<Rightarrow> (DbPullRequestGitHubEvents \<times> nat) list" where
  "genPrHistogram_cte table now repoService options =
     (let order = PullRequestHistogramDto.orderDirection options
      in orderBy event_time order
           (ROW_NUMBER pr_partition event_time order
              (filter (andWhere (genPrHistogram_where now repoService options)) table)))"

definition histogram_row ::
  "timestamp \<times> DbPullRequestGitHubEvents list \<Rightarrow> DbPullRequestGitHubEventsHistogram" where
  "histogram_row g =
     (case g of (b, rows) \<Rightarrow>
        \<lparr>bucket = Some b,
         prs_count = length rows,
         accepted_prs = count_when (\<lambda>e. action_is ''closed'' e \<and> pr_is_merged e) rows,
         open_prs = None,
         closed_prs = count_when (\<lambda>e. action_is ''closed'' e \<and> \<not> pr_is_merged e) rows,
         draft_prs = count_when (\<lambda>e. action_is ''opened'' e \<and> pr_is_draft e) rows,
         active_prs = count_when (action_is ''opened'') rows,
         spam_prs = count_when (\<lambda>e. pr_active_lock_reason e = ''spam'') rows,
         pr_velocity = pr_velocity_of rows\<rparr>)"

text \<open>
  \<open>genPrHistogram\<close>: the check of the criteria, then the buckets over the rows with
  \<open>row_num = 1\<close>. \<open>time_bucket\<close> rejects a width that is not positive when it is
  called on a row.
\<close>

definition genPrHistogram ::
  "DbPullRequestGitHubEvents list \<Rightarrow> timestamp \<Rightarrow> RepoService \<Rightarrow> PullRequestHistogramDto
   \<Rightarrow> error + DbPullRequestGitHubEventsHistogram list" where
  "genPrHistogram table now repoService options =
     (if \<not> truthy (PullRequestHistogramDto.contributor options)
         \<and> \<not> truthy (PullRequestHistogramDto.repo options)
         \<and> \<not> truthy (PullRequestHistogramDto.topic options)
         \<and> \<not> truthy (PullRequestHistogramDto.filter_opt options)
         \<and> \<not> truthy (PullRequestHistogramDto.repoIds options)
      then Inl BadRequestException
      else
        (let w = width options;
             rows = row_num_1 (genPrHistogram_cte table now repoService options)
         in if rows \<noteq> [] \<and> w \<le> 0 then Inl QueryFailedError
            else Inr (map histogram_row
                   (group_by_bucket (\<lambda>e. time_bucket w (event_time e))
                      (PullRequestHistogramDto.orderDirection options) rows))))"

subsection \<open>Authors: searchAuthors\<close>

text \<open>
  Modelled from the spec: \<open>PullRequestContributorOptionsDto\<close> and the row type
  \<open>DbPullRequestContributor\<close> are not under src/. The options extend the page
  options with the fields \<open>searchAuthors\<close> reads, and with the contributor login
  that the spec's filter criteria (section 3) give every query; \<open>searchAuthors\<close>
  never reads it. A contributor row has the three columns the author queries select,
  and only \<open>author_login\<close> where a query selects nothing else.
\<close>

record PullRequestContributorOptionsDto = PageOptionsDto +
  contributor :: "string option"
  repos :: "string option"
  repoIds :: "string option"
  topic :: "string option"
  filter_opt :: "string option"

record DbPullRequestContributor =
  author_login :: string
  user_id :: "int option"
  updated_at :: "timestamp option"

definition contributor_row :: "DbPullRequestGitHubEvents \<Rightarrow> DbPullRequestContributor" where
  "contributor_row e =
     \<lparr>author_login = pr_author_login e, user_id = Some (pr_author_id e),
      updated_at = Some (event_time e)\<rparr>"

definition searchAuthors_cte ::
  "DbPullRequestGitHubEvents list \<Rightarrow> timestamp \<Rightarrow> RepoService
   \<Rightarrow> 'z PullRequestContributorOptionsDto_scheme \<Rightarrow> (DbPullRequestGitHubEvents \<times> nat) list" where
  "searchAuthors_cte table now repoService pageOptionsDto =
     (let startDate = GetPrevDateISOString now
                        (PageOptionsDto.prev_days_start_date pageOptionsDto);
          rng = PageOptionsDto.range_days pageOptionsDto;
          order = PageOptionsDto.orderDirection pageOptionsDto;
          conditions = [in_window startDate rng]
            @ (if truthy (PullRequestContributorOptionsDto.filter_opt pageOptionsDto)
                  \<or> truthy (PullRequestContributorOptionsDto.topic pageOptionsDto)
               then [repo_name_in (map toLowerCase
                       (repoService (PullRequestContributorOptionsDto.filter_opt pageOptionsDto,
                                     PullRequestContributorOptionsDto.topic pageOptionsDto,
                                     50, 0, rng)))]
               else [])
            @ when_set (PullRequestContributorOptionsDto.repos pageOptionsDto)
                (\<lambda>r. repo_name_in (split CHR '','' (toLowerCase r)))
            @ when_set (PullRequestContributorOptionsDto.repoIds pageOptionsDto)
                (\<lambda>ids. repo_id_in (split CHR '','' ids))
      in orderBy event_time order
           (ROW_NUMBER pr_author_login event_time order (filter (andWhere conditions) table)))"

definition searchAuthors ::
  "DbPullRequestGitHubEvents list \<Rightarrow> timestamp \<Rightarrow> RepoService
   \<Rightarrow> 'z PullRequestContributorOptionsDto_scheme \<Rightarrow> error + DbPullRequestContributor PageDto" where
  "searchAuthors table now repoService pageOptionsDto =
     (if \<not> truthy (PullRequestContributorOptionsDto.repos pageOptionsDto)
         \<and> \<not> truthy (PullRequestContributorOptionsDto.repoIds pageOptionsDto)
         \<and> \<not> truthy (PullRequestContributorOptionsDto.topic pageOptionsDto)
         \<and> \<not> truthy (PullRequestContributorOptionsDto.filter_opt pageOptionsDto)
      then Inl BadRequestException
      else
        (let cte = searchAuthors_cte table now repoService pageOptionsDto;
             itemCount = length (row_num_1 cte);
             entities = map contributor_row
                          (offset_limit (skip pageOptionsDto) (limit pageOptionsDto) (row_num_1 cte));
             pageMetaDto = new_PageMetaDto itemCount pageOptionsDto
         in Inr \<lparr>data = entities, meta = pageMetaDto\<rparr>))"

subsection \<open>Authors by cohort: findAuthorsWithFilters\<close>

text \<open>
  \<open>a LEFT JOIN b ON c\<close>: every row of \<open>a\<close> with each row of \<open>b\<close> that satisfies
  \<open>c\<close>, and once with NULLs when none does.
\<close>

definition leftJoin :: "'a list \<Rightarrow> 'b list \<Rightarrow> ('a \<Rightarrow> 'b \<Rightarrow> bool) \<Rightarrow> ('a \<times> 'b option) list" where
  "leftJoin left right on =
     concat (map (\<lambda>l. case filter (on l) right of
                         [] \<Rightarrow> [(l, None)]
                       | ms \<Rightarrow> map (\<lambda>r. (l, Some r)) ms) left)"

text \<open>\<open>x = c\<close> for a column \<open>c\<close> of a left-joined table: not true when \<open>c\<close> is NULL.\<close>

fun sql_eq :: "string \<Rightarrow> string option \<Rightarrow> bool" where
  "sql_eq x None = False"
| "sql_eq x (Some c) = (x = c)"

text \<open>
  The derived table of the cohort filters:
  \<open>SELECT DISTINCT LOWER(pr_author_login) FROM pull_request_github_events
  WHERE LOWER(repo_name) IN (...) AND event_time BETWEEN lo AND hi\<close>,
  the list of names being \<open>repos.toLowerCase().split(",")\<close>.
\<close>

definition month_prs ::
  "DbPullRequestGitHubEvents list \<Rightarrow> string \<Rightarrow> timestamp \<Rightarrow> timestamp \<Rightarrow> string list" where
  "month_prs table reposText lo hi =
     remdups (map (\<lambda>e. toLowerCase (pr_author_login e))
       (filter (\<lambda>e. toLowerCase (repo_name e) \<in> set (split CHR '','' (toLowerCase reposText))
                    \<and> lo \<le> event_time e \<and> event_time e \<le> hi) table))"

definition current_month_prs ::
  "DbPullRequestGitHubEvents list \<Rightarrow> string \<Rightarrow> timestamp \<Rightarrow> int \<Rightarrow> string list" where
  "current_month_prs table reposText startDate rng =
     month_prs table reposText (startDate - days rng) startDate"

definition previous_month_prs ::
  "DbPullRequestGitHubEvents list \<Rightarrow> string \<Rightarrow> timestamp \<Rightarrow> int \<Rightarrow> string list" where
  "previous_month_prs table reposText startDate rng =
     month_prs table reposText (startDate - days (rng + rng)) (startDate - days rng)"

text \<open>
  Each of the three filters joins the two derived tables to the events and adds two
  conditions on the joined columns. The model returns the event part of the joined
  rows that pass the two conditions; the other conditions of the query read event
  columns only. In \<open>applyActiveContributorsFilter\<close> the second join's condition is
  \<open>pull_request_github_events.pr_author_login = current_month_prs.pr_author_login\<close>,
  in the other two it is
  \<open>pull_request_github_events.pr_author_login = previous_month_prs.pr_author_login\<close>.
\<close>

definition applyActiveContributorsFilter ::
  "DbPullRequestGitHubEvents list \<Rightarrow> string \<Rightarrow> timestamp \<Rightarrow> int
   \<Rightarrow> DbPullRequestGitHubEvents list" where
  "applyActiveContributorsFilter table reposText startDate rng =
     map (\<lambda>((e, cur), prev). e)
       (filter (\<lambda>((e, cur), prev). prev \<noteq> None \<and> cur \<noteq> None)
          (leftJoin
             (leftJoin table (current_month_prs table reposText startDate rng)
                (\<lambda>e c. pr_author_login e = c))
             (previous_month_prs table reposText startDate rng)
             (\<lambda>(e, cur) p. sql_eq (pr_author_login e) cur)))"

definition applyNewContributorsFilter ::
  "DbPullRequestGitHubEvents list \<Rightarrow> string \<Rightarrow> timestamp \<Rightarrow> int
   \<Rightarrow> DbPullRequestGitHubEvents list" where
  "applyNewContributorsFilter table reposText startDate rng =
     map (\<lambda>((e, cur), prev). e)
       (filter (\<lambda>((e, cur), prev). prev = None \<and> cur \<noteq> None)
          (leftJoin
             (leftJoin table (current_month_prs table reposText startDate rng)
                (\<lambda>e c. pr_author_login e = c))
             (previous_month_prs table reposText startDate rng)
             (\<lambda>(e, cur) p. pr_author_login e = p)))"

definition applyAlumniContributorsFilter ::
  "DbPullRequestGitHubEvents list \<Rightarrow> string \<Rightarrow> timestamp \<Rightarrow> int
   \<Rightarrow> DbPullRequestGitHubEvents list" where
  "applyAlumniContributorsFilter table reposText startDate rng =
     map (\<lambda>((e, cur), prev). e)
       (filter (\<lambda>((e, cur), prev). prev \<noteq> None \<and> cur = None)
          (leftJoin
             (leftJoin table (current_month_prs table reposText startDate rng)
                (\<lambda>e c. pr_author_login e = c))
             (previous_month_prs table reposText startDate rng)
             (\<lambda>(e, cur) p. pr_author_login e = p)))"

text \<open>
  Modelled from the spec: \<open>PullRequestContributorInsightsDto\<close> is not under src/.
  \<open>findAuthorsWithFilters\<close> calls \<open>repos.toLowerCase()\<close> unguarded, so \<open>repos\<close> is
  a string; \<open>findAllRecentContributors\<close> reads the optional \<open>repoIds\<close>.
\<close>

record PullRequestContributorInsightsDto = PageOptionsDto +
  repos :: string
  repoIds :: "string option"

definition findAuthorsWithFilters_cte ::
  "DbPullRequestGitHubEvents list \<Rightarrow> timestamp \<Rightarrow> 'z PullRequestContributorInsightsDto_scheme
   \<Rightarrow> string \<Rightarrow> (DbPullRequestGitHubEvents \<times> nat) list" where
  "findAuthorsWithFilters_cte table now pageOptionsDto contribType =
     (let startDate = GetPrevDateISOString now
                        (PageOptionsDto.prev_days_start_date pageOptionsDto);
          rng = PageOptionsDto.range_days pageOptionsDto;
          order = PageOptionsDto.orderDirection pageOptionsDto;
          reposText = toLowerCase (PullRequestContributorInsightsDto.repos pageOptionsDto);
          joined =
            (if contribType = ''active'' then
               filter (in_window startDate rng)
                 (applyActiveContributorsFilter table reposText startDate rng)
             else if contribType = ''new'' then
               filter (in_window startDate rng)
                 (applyNewContributorsFilter table reposText startDate rng)
             else if contribType = ''alumni'' then
               filter (in_window startDate (rng + rng))
                 (applyAlumniContributorsFilter table reposText startDate rng)
             else filter (in_window startDate rng) table);
          rows =
            (if PullRequestContributorInsightsDto.repos pageOptionsDto \<noteq> []
             then filter (repo_name_in (split CHR '',''
                    (toLowerCase (PullRequestContributorInsightsDto.repos pageOptionsDto)))) joined
             else joined)
      in orderBy event_time order (ROW_NUMBER pr_author_login event_time order rows))"

definition findAuthorsWithFilters ::
  "DbPullRequestGitHubEvents list \<Rightarrow> timestamp \<Rightarrow> 'z PullRequestContributorInsightsDto_scheme
   \<Rightarrow> string \<Rightarrow> DbPullRequestContributor PageDto" where
  "findAuthorsWithFilters table now pageOptionsDto contribType =
     (let cte = findAuthorsWithFilters_cte table now pageOptionsDto contribType;
          itemCount = length (row_num_1 cte);
          entities = map contributor_row
                       (offset_limit (skip pageOptionsDto) (limit pageOptionsDto) (row_num_1 cte));
          pageMetaDto = new_PageMetaDto itemCount pageOptionsDto
      in \<lparr>data = entities, meta = pageMetaDto\<rparr>)"

text \<open>The logins a cohort query returns when nothing is sliced off.\<close>

definition cohort_logins ::
  "DbPullRequestGitHubEvents list \<Rightarrow> timestamp \<Rightarrow> 'z PullRequestContributorInsightsDto_scheme
   \<Rightarrow> string \<Rightarrow> string list" where
  "cohort_logins table now pageOptionsDto contribType =
     map pr_author_login
       (row_num_1 (findAuthorsWithFilters_cte table now pageOptionsDto contribType))"

section \<open>The pull requests table: recent contributors\<close>

text \<open>
  Modelled from the spec: the entity \<open>DbPullRequest\<close> and the \<open>repos\<close> table are not
  under src/. A pull request has the columns the range query names; the \<open>repos\<close>
  table is the list of its ids, in the text form of the request's \<open>repoIds\<close>.
\<close>

record DbPullRequest =
  pull_request_author_login :: string
  pull_request_updated_at :: timestamp
  pull_request_repo_id :: string

definition innerJoin :: "'a list \<Rightarrow> 'b list \<Rightarrow> ('a \<Rightarrow> 'b \<Rightarrow> bool) \<Rightarrow> ('a \<times> 'b) list" where
  "innerJoin left right on = concat (map (\<lambda>l. map (\<lambda>r. (l, r)) (filter (on l) right)) left)"

definition getContributorRangeQueryBuilder ::
  "DbPullRequest list \<Rightarrow> string list \<Rightarrow> timestamp \<Rightarrow> int \<Rightarrow> int \<Rightarrow> string list
   \<Rightarrow> error + DbPullRequestContributor list" where
  "getContributorRangeQueryBuilder pull_requests repos_table start_date start_range end_range ids =
     (if length ids = 0 then Inl BadRequestException
      else Inr (map (\<lambda>l. \<lparr>author_login = l, user_id = None, updated_at = None\<rparr>)
        (remdups (map (\<lambda>(pr, repo_row). pull_request_author_login pr)
          (filter (\<lambda>(pr, repo_row).
                      pull_request_updated_at pr \<ge> start_date - days end_range
                    \<and> pull_request_updated_at pr < start_date - days start_range
                    \<and> pull_request_author_login pr \<noteq> []
                    \<and> repo_row \<in> set ids)
             (innerJoin pull_requests repos_table
                (\<lambda>pr repo_row. pull_request_repo_id pr = repo_row)))))))"

definition findAllRecentContributors ::
  "DbPullRequest list \<Rightarrow> string list \<Rightarrow> timestamp \<Rightarrow> 'z PullRequestContributorInsightsDto_scheme
   \<Rightarrow> error + DbPullRequestContributor PageDto" where
  "findAllRecentContributors pull_requests repos_table now pageOptionsDto =
     (let startDate = GetPrevDateISOString now
                        (PageOptionsDto.prev_days_start_date pageOptionsDto);
          rng = PageOptionsDto.range_days pageOptionsDto;
          ids = (case PullRequestContributorInsightsDto.repoIds pageOptionsDto of
                   None \<Rightarrow> []
                 | Some text \<Rightarrow> split CHR '','' text)
      in case getContributorRangeQueryBuilder pull_requests repos_table startDate 0 rng ids of
           Inl err \<Rightarrow> Inl err
         | Inr entities \<Rightarrow>
             (let itemCount = length entities;
                  pageMetaDto = new_PageMetaDto itemCount
                                  (pageOptionsDto\<lparr>limit := itemCount, skip := 0\<rparr>)
              in Inr \<lparr>data = entities, meta = pageMetaDto\<rparr>))"

section \<open>The fork events table: genForkHistogram\<close>

text \<open>
  Modelled from the spec: \<open>ForksHistogramDto\<close> and the entity
  \<open>DbForkGitHubEventsHistogram\<close> are not under src/. The options have the fields
  \<open>genForkHistogram\<close> reads, a fork event the two columns its query names.
  \<open>options.repo!\<close> asserts a type only: on an undefined \<open>repo\<close>, \<open>repo.toLowerCase()\<close>
  throws a \<open>TypeError\<close>.
\<close>

record ForksHistogramDto =
  contributor :: "string option"
  repo :: "string option"
  topic :: "string option"
  filter_opt :: "string option"
  repoIds :: "string option"
  orderDirection :: OrderDirectionEnum
  range_days :: int

record DbForkGitHubEvents =
  fork_repo_name :: string
  fork_event_time :: timestamp

record DbForkGitHubEventsHistogram =
  fork_bucket :: timestamp
  forks_count :: nat

text \<open>
  The two conditions of the fork query: \<open>LOWER(repo_name) = LOWER(:repo)\<close>, the
  parameter being \<open>repo.toLowerCase()\<close>, and
  \<open>now() - INTERVAL 'range days' <= event_time\<close>.
\<close>

definition fork_where :: "timestamp \<Rightarrow> int \<Rightarrow> string \<Rightarrow> DbForkGitHubEvents \<Rightarrow> bool" where
  "fork_where now rng repoName f =
     (toLowerCase (fork_repo_name f) = toLowerCase (toLowerCase repoName)
      \<and> now - days rng \<le> fork_event_time f)"

definition genForkHistogram ::
  "DbForkGitHubEvents list \<Rightarrow> timestamp \<Rightarrow> ForksHistogramDto
   \<Rightarrow> error + DbForkGitHubEventsHistogram list" where
  "genForkHistogram fork_github_events now options =
     (if \<not> truthy (ForksHistogramDto.contributor options)
         \<and> \<not> truthy (ForksHistogramDto.repo options)
         \<and> \<not> truthy (ForksHistogramDto.topic options)
         \<and> \<not> truthy (ForksHistogramDto.filter_opt options)
         \<and> \<not> truthy (ForksHistogramDto.repoIds options)
      then Inl BadRequestException
      else
        (let order = ForksHistogramDto.orderDirection options;
             rng = ForksHistogramDto.range_days options
         in case ForksHistogramDto.repo options of
              None \<Rightarrow> Inl TypeError
            | Some repoName \<Rightarrow>
                Inr (map (\<lambda>(b, rows). \<lparr>fork_bucket = b, forks_count = length rows\<rparr>)
                  (group_by_bucket (\<lambda>f. time_bucket 1 (fork_event_time f)) order
                     (filter (fork_where now rng repoName) fork_github_events)))))"

section \<open>Rows for the concrete cases\<close>

text \<open>A repository search that finds nothing and a list with no contributor.\<close>

definition no_repos :: RepoService where
  "no_repos = (\<lambda>options. [])"

definition no_users :: UserListService where
  "no_users = (\<lambda>listId. [])"


definition example_event ::
  "int \<Rightarrow> int \<Rightarrow> string \<Rightarrow> string \<Rightarrow> timestamp \<Rightarrow> DbPullRequestGitHubEvents" where
  "example_event eid n repoName login t =
     \<lparr>event_id = eid, pr_number = n, pr_state = ''open'', pr_action = ''opened'',
      pr_is_draft = False, pr_is_merged = False, pr_author_login = login, pr_author_id = 1,
      pr_created_at = t, pr_merged_at = t, pr_active_lock_reason = [],
      repo_name = repoName, repo_id = ''1'', event_time = t\<rparr>"

definition example_author_options :: PullRequestContributorOptionsDto where
  "example_author_options =
     \<lparr>skip = 0, limit = 10, PageOptionsDto.range_days = 30,
      PageOptionsDto.prev_days_start_date = 0, PageOptionsDto.orderDirection = DESC,
      PullRequestContributorOptionsDto.contributor = None,
      PullRequestContributorOptionsDto.repos = Some ''a/b'',
      PullRequestContributorOptionsDto.repoIds = None,
      PullRequestContributorOptionsDto.topic = None,
      PullRequestContributorOptionsDto.filter_opt = None\<rparr>"

definition example_merged_event ::
  "int \<Rightarrow> int \<Rightarrow> string \<Rightarrow> string \<Rightarrow> timestamp \<Rightarrow> timestamp \<Rightarrow> DbPullRequestGitHubEvents" where
  "example_merged_event eid n repoName login created merged =
     (example_event eid n repoName login merged)
       \<lparr>pr_state := ''closed'', pr_action := ''closed'', pr_is_merged := True,
        pr_created_at := created, pr_merged_at := merged\<rparr>"

definition example_asc_options :: PageOptionsDto where
  "example_asc_options =
     \<lparr>skip = 0, limit = 10, PageOptionsDto.range_days = 30,
      PageOptionsDto.prev_days_start_date = 0, PageOptionsDto.orderDirection = ASC\<rparr>"

definition example_page_options :: PullRequestPageOptionsDto where
  "example_page_options =
     \<lparr>skip = 0, limit = 10, PageOptionsDto.range_days = 30,
      PageOptionsDto.prev_days_start_date = 0, PageOptionsDto.orderDirection = DESC,
      distinctAuthors = False,
      PullRequestPageOptionsDto.contributor = None,
      PullRequestPageOptionsDto.filter_opt = None,
      PullRequestPageOptionsDto.topic = None,
      PullRequestPageOptionsDto.repo = Some ''a/b'',
      PullRequestPageOptionsDto.repoIds = None,
      listId = None, status = Some ''open''\<rparr>"

definition example_histogram_options :: PullRequestHistogramDto where
  "example_histogram_options =
     \<lparr>PullRequestHistogramDto.contributor = None,
      PullRequestHistogramDto.repo = Some ''a/b'',
      PullRequestHistogramDto.topic = None,
      PullRequestHistogramDto.filter_opt = None,
      PullRequestHistogramDto.repoIds = None,
      PullRequestHistogramDto.orderDirection = ASC,
      PullRequestHistogramDto.range_days = 30,
      PullRequestHistogramDto.prev_days_start_date = 0,
      width = 1\<rparr>"

definition example_forks_options :: ForksHistogramDto where
  "example_forks_options =
     \<lparr>ForksHistogramDto.contributor = None,
      ForksHistogramDto.repo = Some ''a/b'',
      ForksHistogramDto.topic = None,
      ForksHistogramDto.filter_opt = None,
      ForksHistogramDto.repoIds = None,
      ForksHistogramDto.orderDirection = ASC,
      ForksHistogramDto.range_days = 30\<rparr>"

definition example_insights_options :: PullRequestContributorInsightsDto where
  "example_insights_options =
     \<lparr>skip = 5, limit = 1, PageOptionsDto.range_days = 30,
      PageOptionsDto.prev_days_start_date = 0, PageOptionsDto.orderDirection = DESC,
      PullRequestContributorInsightsDto.repos = ''a/b'',
      PullRequestContributorInsightsDto.repoIds = Some ''1,2''\<rparr>"

definition example_cohort_options :: PullRequestContributorInsightsDto where
  "example_cohort_options =
     \<lparr>skip = 0, limit = 10, PageOptionsDto.range_days = 30,
      PageOptionsDto.prev_days_start_date = 0, PageOptionsDto.orderDirection = DESC,
      PullRequestContributorInsightsDto.repos = ''o/r'',
      PullRequestContributorInsightsDto.repoIds = None\<rparr>"

text \<open>
  With \<open>now\<close> at day 100 (8640000 seconds) and a range of 30 days: one event of
  \<open>alice\<close> on day 90, in the current window, and one of \<open>bob\<close> on day 60, in the
  previous window.
\<close>

definition example_cohort_table :: "DbPullRequestGitHubEvents list" where
  "example_cohort_table =
     [example_event 1 1 ''o/r'' ''alice'' 7776000, example_event 2 2 ''o/r'' ''bob'' 5184000]"

section \<open>Theorems\<close>

lemma count_distinct_card: "count_distinct col rows = card (col ` set rows)"
  by (simp add: count_distinct_def length_remdups_card_conv)

text \<open>
  C9. \<open>findCountByPrAuthor\<close> is the number of distinct \<open>pr_number\<close> values among the
  author's events in the window. Nothing partitions by repository and nothing reduces
  a pull request to its latest event: whenever the matching events are two events
  with one \<open>pr_number\<close>, whatever their repositories, the count is 1.
\<close>

theorem findCountByPrAuthor_counts_pr_numbers:
  "findCountByPrAuthor table now author rng prevDays =
     card (pr_number ` {e \<in> set table.
        in_window (GetPrevDateISOString now prevDays) rng e \<and>
        author_is (toLowerCase author) e})
   \<and> (\<forall>e1 e2.
        in_window (GetPrevDateISOString now prevDays) rng e1 \<and>
        author_is (toLowerCase author) e1 \<and>
        in_window (GetPrevDateISOString now prevDays) rng e2 \<and>
        author_is (toLowerCase author) e2 \<and>
        pr_number e1 = pr_number e2 \<and> repo_name e1 \<noteq> repo_name e2 \<longrightarrow>
        findCountByPrAuthor [e1, e2] now author rng prevDays = 1)"
  by (auto simp: findCountByPrAuthor_def counterBaseQueryBuilder_def count_distinct_card Let_def
      intro!: arg_cong[where f = card])


theorem findCountByPrAuthor_counts_pr_numbers_witness:
  "in_window (GetPrevDateISOString 1000 0) 30 (example_event 1 7 ''a/b'' ''Alice'' 100) \<and>
   author_is (toLowerCase ''ALICE'') (example_event 1 7 ''a/b'' ''Alice'' 100) \<and>
   in_window (GetPrevDateISOString 1000 0) 30 (example_event 2 7 ''c/d'' ''alice'' 200) \<and>
   author_is (toLowerCase ''ALICE'') (example_event 2 7 ''c/d'' ''alice'' 200) \<and>
   findCountByPrAuthor
     [example_event 1 7 ''a/b'' ''Alice'' 100, example_event 2 7 ''c/d'' ''alice'' 200]
     1000 ''ALICE'' 30 0 = 1"
proof -
  let ?e1 = "example_event 1 7 ''a/b'' ''Alice'' 100"
  let ?e2 = "example_event 2 7 ''c/d'' ''alice'' 200"
  have h: "in_window (GetPrevDateISOString 1000 0) 30 ?e1 \<and>
        author_is (toLowerCase ''ALICE'') ?e1 \<and>
        in_window (GetPrevDateISOString 1000 0) 30 ?e2 \<and>
        author_is (toLowerCase ''ALICE'') ?e2 \<and>
        pr_number ?e1 = pr_number ?e2 \<and> repo_name ?e1 \<noteq> repo_name ?e2"
    by (simp add: in_window_def GetPrevDateISOString_def days_def author_is_def
        example_event_def toLowerCase_def lower_char_def)
  from findCountByPrAuthor_counts_pr_numbers[of "[]" 1000 "''ALICE''" 30 0] h
  have "findCountByPrAuthor [?e1, ?e2] 1000 ''ALICE'' 30 0 = 1"
    by blast
  with h show ?thesis by blast
qed

subsection \<open>The window function\<close>

lemma number_is_1:
  "(Suc (length [y \<leftarrow> pre. key y = key x \<and> sk y \<le> sk x]
        + length [y \<leftarrow> xs. key y = key x \<and> sk y < (sk x :: int)]) = 1)
   \<longleftrightarrow> (\<forall>y \<in> set pre. key y = key x \<longrightarrow> sk x < sk y)
       \<and> (\<forall>y \<in> set xs. key y = key x \<longrightarrow> sk x \<le> sk y)"
  by (auto simp: filter_empty_conv)

text \<open>
  Among the numbered rows of one partition, exactly one has number 1 when the
  partition has a row that sorts strictly before every row already seen, and none
  otherwise.
\<close>

lemma count_row_num_1:
  "length [p \<leftarrow> number_rows key sk pre xs. key (fst p) = k \<and> snd p = 1] =
     (if \<exists>x \<in> set xs. key x = k \<and> (\<forall>y \<in> set pre. key y = k \<longrightarrow> sk x < sk y) then 1 else 0)"
proof (induction xs arbitrary: pre)
  case Nil
  show ?case by simp
next
  case (Cons x xs)
  let ?n = "Suc (length [y \<leftarrow> pre. key y = key x \<and> sk y \<le> sk x]
                 + length [y \<leftarrow> xs. key y = key x \<and> sk y < sk x])"
  show ?case
  proof (cases "key x = k")
    case False
    then show ?thesis using Cons.IH[of "pre @ [x]"] by auto
  next
    case True
    show ?thesis
    proof (cases "?n = 1")
      case one: True
      then have a: "\<forall>y \<in> set pre. key y = key x \<longrightarrow> sk x < sk y"
        and b: "\<forall>y \<in> set xs. key y = key x \<longrightarrow> sk x \<le> sk y"
        using number_is_1[of key x sk pre xs] by blast+
      have "length [p \<leftarrow> number_rows key sk (pre @ [x]) xs. key (fst p) = k \<and> snd p = 1] = 0"
        using Cons.IH[of "pre @ [x]"] b True by (auto simp: not_less)
      then show ?thesis using one True a by auto
    next
      case notone: False
      then have c: "(\<exists>y \<in> set pre. key y = key x \<and> sk y \<le> sk x)
                  \<or> (\<exists>y \<in> set xs. key y = key x \<and> sk y < sk x)"
        using number_is_1[of key x sk pre xs] by (auto simp: not_less not_le)
      have "(\<exists>z \<in> set xs. key z = k \<and> (\<forall>y \<in> set (pre @ [x]). key y = k \<longrightarrow> sk z < sk y))
           \<longleftrightarrow> (\<exists>z \<in> set (x # xs). key z = k \<and> (\<forall>y \<in> set pre. key y = k \<longrightarrow> sk z < sk y))"
        (is "?L \<longleftrightarrow> ?R")
      proof
        assume ?L then show ?R by auto
      next
        assume ?R
        then obtain z where z: "z \<in> set (x # xs)" "key z = k"
            "\<forall>y \<in> set pre. key y = k \<longrightarrow> sk z < sk y"
          by blast
        show ?L
        proof (cases "z \<in> set xs \<and> sk z < sk x")
          case True
          then show ?thesis using z by auto
        next
          case False
          then have zx: "sk x \<le> sk z" using z(1) by auto
          then have "\<forall>y \<in> set pre. key y = k \<longrightarrow> sk x < sk y" using z(3) by fastforce
          with c \<open>key x = k\<close> obtain w where w: "w \<in> set xs" "key w = k" "sk w < sk x"
            by fastforce
          then have "\<forall>y \<in> set (pre @ [x]). key y = k \<longrightarrow> sk w < sk y"
            using zx z(3) by fastforce
          then show ?thesis using w by blast
        qed
      qed
      moreover have "length [p \<leftarrow> number_rows key sk pre (x # xs). key (fst p) = k \<and> snd p = 1]
          = length [p \<leftarrow> number_rows key sk (pre @ [x]) xs. key (fst p) = k \<and> snd p = 1]"
        using notone by simp
      ultimately show ?thesis using Cons.IH[of "pre @ [x]"] by simp
    qed
  qed
qed

text \<open>A row numbered 1 is a row of the input and sorts first in its partition.\<close>

lemma row_num_1_least:
  "(x, 1) \<in> set (number_rows key sk pre xs) \<Longrightarrow>
     x \<in> set xs \<and> (\<forall>y \<in> set pre \<union> set xs. key y = key x \<longrightarrow> sk x \<le> sk y)"
proof (induction xs arbitrary: pre)
  case Nil
  then show ?case by simp
next
  case (Cons a xs)
  from Cons.prems consider
    (first) "x = a"
      "Suc (length [y \<leftarrow> pre. key y = key a \<and> sk y \<le> sk a]
            + length [y \<leftarrow> xs. key y = key a \<and> sk y < sk a]) = 1"
    | (later) "(x, 1) \<in> set (number_rows key sk (pre @ [a]) xs)"
    by auto
  then show ?case
  proof cases
    case first
    then show ?thesis using number_is_1[of key a sk pre xs] by force
  next
    case later
    then show ?thesis using Cons.IH[of "pre @ [a]"] by auto
  qed
qed

lemma map_fst_number_rows: "map fst (number_rows key sk pre xs) = xs"
  by (induction xs arbitrary: pre) auto

lemma row_num_1_partition:
  "[r \<leftarrow> row_num_1 (ROW_NUMBER key col direction rows). key r = k] =
     map fst [p \<leftarrow> number_rows key (\<lambda>r. order_key direction (col r)) [] rows.
                key (fst p) = k \<and> snd p = 1]"
  by (simp add: row_num_1_def ROW_NUMBER_def filter_map comp_def case_prod_unfold conj_commute)

text \<open>
  The rows with \<open>row_num = 1\<close> of a partition that has a row: exactly one, a row of
  the partition, first in the window's order.
\<close>

lemma row_num_1_unique:
  assumes "e \<in> set rows"
  shows "\<exists>r. [r' \<leftarrow> row_num_1 (ROW_NUMBER key col direction rows). key r' = key e] = [r]
           \<and> r \<in> set rows \<and> key r = key e
           \<and> (\<forall>y \<in> set rows. key y = key e \<longrightarrow>
                 order_key direction (col r) \<le> order_key direction (col y))"
proof -
  let ?sk = "\<lambda>r. order_key direction (col r)"
  let ?ps = "[p \<leftarrow> number_rows key ?sk [] rows. key (fst p) = key e \<and> snd p = 1]"
  have "length ?ps = 1"
    using assms count_row_num_1[of key "key e" ?sk "[]" rows] by auto
  then obtain p where p: "?ps = [p]"
    by (cases ?ps) auto
  then have "p \<in> set ?ps" by simp
  then have "p \<in> set (number_rows key ?sk [] rows)" and k: "key (fst p) = key e"
    and "snd p = 1"
    by auto
  then have mem: "(fst p, 1) \<in> set (number_rows key ?sk [] rows)"
    by (metis prod.collapse)
  from row_num_1_least[OF mem] k
  have "fst p \<in> set rows" "\<forall>y \<in> set rows. key y = key e \<longrightarrow> ?sk (fst p) \<le> ?sk y"
    by auto
  moreover have "[r' \<leftarrow> row_num_1 (ROW_NUMBER key col direction rows). key r' = key e] = [fst p]"
    using p by (simp add: row_num_1_partition)
  ultimately show ?thesis using k by blast
qed

lemmas ev_simps = in_window_def GetPrevDateISOString_def days_def author_is_def
  example_event_def toLowerCase_def lower_char_def pr_partition_def andWhere_def
  no_repos_def no_users_def

text \<open>
  The outer \<open>ORDER BY\<close> of a listing or histogram CTE permutes the numbered rows and
  leaves the rows with \<open>row_num = 1\<close> of each partition the same.
\<close>

lemma row_num_1_orderBy_partition:
  assumes "filter Q (row_num_1 cte) = [r]"
  shows "filter Q (row_num_1 (orderBy col direction cte)) = [r]"
proof -
  let ?P = "\<lambda>p. Q (fst p) \<and> (case p of (r, row_num) \<Rightarrow> row_num = 1)"
  let ?f = "\<lambda>(r, n). order_key direction (col r)"
  have a: "filter Q (row_num_1 c) = map fst (filter ?P c)" for c :: "('a \<times> nat) list"
    by (simp add: row_num_1_def filter_map comp_def conj_commute)
  from assms have "map fst (filter ?P cte) = [r]" by (simp only: a)
  then obtain p where p: "filter ?P cte = [p]" "fst p = r"
    by (cases "filter ?P cte") auto
  have s: "filter ?P (sort_key ?f cte) = sort_key ?f (filter ?P cte)"
    by (rule filter_sort)
  have "filter ?P (orderBy col direction cte) = [p]"
    unfolding orderBy_def s p(1) by simp
  then show ?thesis using p(2) by (simp only: a) simp
qed

lemma cte_one_record:
  assumes "e \<in> set rows"
  shows "\<exists>r. [r' \<leftarrow> row_num_1 (orderBy col2 d2 (ROW_NUMBER key event_time d rows)).
                key r' = key e] = [r]
           \<and> [r' \<leftarrow> row_num_1 (ROW_NUMBER key event_time d rows). key r' = key e] = [r]
           \<and> r \<in> set rows \<and> key r = key e
           \<and> (\<forall>y \<in> set rows. key y = key e \<longrightarrow>
                 (d = DESC \<longrightarrow> event_time y \<le> event_time r)
                 \<and> (d = ASC \<longrightarrow> event_time r \<le> event_time y))"
proof -
  from row_num_1_unique[OF assms, of key event_time d]
  obtain r where r: "[r' \<leftarrow> row_num_1 (ROW_NUMBER key event_time d rows). key r' = key e] = [r]"
    "r \<in> set rows" "key r = key e"
    "\<forall>y \<in> set rows. key y = key e \<longrightarrow>
        order_key d (event_time r) \<le> order_key d (event_time y)"
    by blast
  have "\<forall>y \<in> set rows. key y = key e \<longrightarrow>
                 (d = DESC \<longrightarrow> event_time y \<le> event_time r)
                 \<and> (d = ASC \<longrightarrow> event_time r \<le> event_time y)"
    using r(4) by (cases d) auto
  with r(1,2,3) row_num_1_orderBy_partition[OF r(1), of col2 d2] show ?thesis by blast
qed


lemma cte_partition:
  assumes "e \<in> set table" and "W e"
  shows "\<exists>r. [r' \<leftarrow> row_num_1 (orderBy col2 d2 (ROW_NUMBER key event_time d (filter W table))).
                key r' = key e] = [r]
           \<and> [r' \<leftarrow> row_num_1 (ROW_NUMBER key event_time d (filter W table)).
                key r' = key e] = [r]
           \<and> r \<in> set table \<and> W r \<and> key r = key e
           \<and> (\<forall>e' \<in> set table. W e' \<and> key e' = key e \<longrightarrow>
                 (d = DESC \<longrightarrow> event_time e' \<le> event_time r)
                 \<and> (d = ASC \<longrightarrow> event_time r \<le> event_time e'))"
proof -
  have "e \<in> set (filter W table)" using assms by simp
  from cte_one_record[OF this, where ?col2.0 = col2 and ?d2.0 = d2 and key = key and d = d]
  show ?thesis by auto
qed

text \<open>
  C1 (as amended). In every query that numbers the events with
  \<open>ROW_NUMBER() OVER (PARTITION BY pr_number, repo_name ORDER BY event_time ...)\<close>
  (\<open>basePrAuthorCteBuilder\<close>, \<open>baseRepoCteBuilder\<close>, \<open>findAllByPrAuthor\<close>,
  \<open>findAllWithFilters\<close>, \<open>genPrHistogram\<close>) and for every event that passes the
  conditions of the query, the rows selected with \<open>row_num = 1\<close> hold exactly one
  record of the event's \<open>(pr_number, repo_name)\<close> partition; it is an event of the
  table that passes the conditions. Its \<open>event_time\<close> is the maximum of the partition
  where the window orders \<open>DESC\<close>: always in the two base builders, which fix the
  direction, and in the other three when the caller's \<open>orderDirection\<close> is \<open>DESC\<close>;
  when the caller's \<open>orderDirection\<close> is \<open>ASC\<close> it is the minimum of the partition,
  the earliest event. With \<open>distinctAuthors\<close>, \<open>findAllWithFilters\<close> partitions by
  \<open>(pr_author_login, repo_name)\<close> instead, and the same holds of those partitions.
\<close>

theorem row_num_1_one_record_per_partition:
  "(e \<in> set table \<and> andWhere [author_is (toLowerCase author),
            in_window (GetPrevDateISOString now prevDays) rng] e \<longrightarrow>
      (\<exists>r. [r' \<leftarrow> row_num_1 (basePrAuthorCteBuilder table now author rng prevDays).
                 pr_partition r' = pr_partition e] = [r]
            \<and> r \<in> set table \<and> andWhere [author_is (toLowerCase author),
            in_window (GetPrevDateISOString now prevDays) rng] r
            \<and> pr_partition r = pr_partition e
            \<and> (\<forall>e' \<in> set table.
                  andWhere [author_is (toLowerCase author),
            in_window (GetPrevDateISOString now prevDays) rng] e' \<and> pr_partition e' = pr_partition e \<longrightarrow>
                   event_time e' \<le> event_time r)))
   \<and> (e \<in> set table \<and> andWhere [repo_is (toLowerCase repoName),
            in_window (GetPrevDateISOString now prevDays) rng] e \<longrightarrow>
      (\<exists>r. [r' \<leftarrow> row_num_1 (baseRepoCteBuilder table now repoName rng prevDays).
                 pr_partition r' = pr_partition e] = [r]
            \<and> r \<in> set table \<and> andWhere [repo_is (toLowerCase repoName),
            in_window (GetPrevDateISOString now prevDays) rng] r
            \<and> pr_partition r = pr_partition e
            \<and> (\<forall>e' \<in> set table.
                  andWhere [repo_is (toLowerCase repoName),
            in_window (GetPrevDateISOString now prevDays) rng] e' \<and> pr_partition e' = pr_partition e \<longrightarrow>
                   event_time e' \<le> event_time r)))
   \<and> (e \<in> set table \<and> andWhere [author_is (toLowerCase author),
            in_window (GetPrevDateISOString now (PageOptionsDto.prev_days_start_date pageOptionsDto))
              (PageOptionsDto.range_days pageOptionsDto)] e \<longrightarrow>
      (\<exists>r. [r' \<leftarrow> row_num_1 (findAllByPrAuthor_cte table now author pageOptionsDto).
                 pr_partition r' = pr_partition e] = [r]
            \<and> r \<in> set table \<and> andWhere [author_is (toLowerCase author),
            in_window (GetPrevDateISOString now (PageOptionsDto.prev_days_start_date pageOptionsDto))
              (PageOptionsDto.range_days pageOptionsDto)] r
            \<and> pr_partition r = pr_partition e
            \<and> (\<forall>e' \<in> set table.
                  andWhere [author_is (toLowerCase author),
            in_window (GetPrevDateISOString now (PageOptionsDto.prev_days_start_date pageOptionsDto))
              (PageOptionsDto.range_days pageOptionsDto)] e' \<and> pr_partition e' = pr_partition e \<longrightarrow>
                   (PageOptionsDto.orderDirection pageOptionsDto = DESC \<longrightarrow> event_time e' \<le> event_time r)
                   \<and> (PageOptionsDto.orderDirection pageOptionsDto = ASC \<longrightarrow> event_time r \<le> event_time e'))))
   \<and> (\<not> distinctAuthors q \<and> e \<in> set table \<and> andWhere (findAllWithFilters_where now rs uls q) e \<longrightarrow>
      (\<exists>r. [r' \<leftarrow> row_num_1 (findAllWithFilters_cte table now rs uls q).
                 pr_partition r' = pr_partition e] = [r]
            \<and> r \<in> set table \<and> andWhere (findAllWithFilters_where now rs uls q) r
            \<and> pr_partition r = pr_partition e
            \<and> (\<forall>e' \<in> set table.
                  andWhere (findAllWithFilters_where now rs uls q) e' \<and> pr_partition e' = pr_partition e \<longrightarrow>
                   (PageOptionsDto.orderDirection q = DESC \<longrightarrow> event_time e' \<le> event_time r)
                   \<and> (PageOptionsDto.orderDirection q = ASC \<longrightarrow> event_time r \<le> event_time e'))))
   \<and> (distinctAuthors q \<and> e \<in> set table \<and> andWhere (findAllWithFilters_where now rs uls q) e \<longrightarrow>
      (\<exists>r. [r' \<leftarrow> row_num_1 (findAllWithFilters_cte table now rs uls q).
                 author_repo_partition r' = author_repo_partition e] = [r]
            \<and> r \<in> set table \<and> andWhere (findAllWithFilters_where now rs uls q) r
            \<and> author_repo_partition r = author_repo_partition e
            \<and> (\<forall>e' \<in> set table.
                  andWhere (findAllWithFilters_where now rs uls q) e' \<and> author_repo_partition e' = author_repo_partition e \<longrightarrow>
                   (PageOptionsDto.orderDirection q = DESC \<longrightarrow> event_time e' \<le> event_time r)
                   \<and> (PageOptionsDto.orderDirection q = ASC \<longrightarrow> event_time r \<le> event_time e'))))
   \<and> (e \<in> set table \<and> andWhere (genPrHistogram_where now rs options) e \<longrightarrow>
      (\<exists>r. [r' \<leftarrow> row_num_1 (genPrHistogram_cte table now rs options).
                 pr_partition r' = pr_partition e] = [r]
            \<and> r \<in> set table \<and> andWhere (genPrHistogram_where now rs options) r
            \<and> pr_partition r = pr_partition e
            \<and> (\<forall>e' \<in> set table.
                  andWhere (genPrHistogram_where now rs options) e' \<and> pr_partition e' = pr_partition e \<longrightarrow>
                   (PullRequestHistogramDto.orderDirection options = DESC \<longrightarrow> event_time e' \<le> event_time r)
                   \<and> (PullRequestHistogramDto.orderDirection options = ASC \<longrightarrow> event_time r \<le> event_time e'))))"
proof (intro conjI impI)
  assume "e \<in> set table \<and> andWhere [author_is (toLowerCase author),
            in_window (GetPrevDateISOString now prevDays) rng] e"
  then show "\<exists>r. [r' \<leftarrow> row_num_1 (basePrAuthorCteBuilder table now author rng prevDays).
                 pr_partition r' = pr_partition e] = [r]
            \<and> r \<in> set table \<and> andWhere [author_is (toLowerCase author),
            in_window (GetPrevDateISOString now prevDays) rng] r
            \<and> pr_partition r = pr_partition e
            \<and> (\<forall>e' \<in> set table.
                  andWhere [author_is (toLowerCase author),
            in_window (GetPrevDateISOString now prevDays) rng] e' \<and> pr_partition e' = pr_partition e \<longrightarrow>
                   event_time e' \<le> event_time r)"
    using cte_partition[where W = "andWhere [author_is (toLowerCase author),
            in_window (GetPrevDateISOString now prevDays) rng]"
        and e = e and table = table and ?col2.0 = event_time and ?d2.0 = DESC
        and key = pr_partition and d = DESC]
    unfolding basePrAuthorCteBuilder_def Let_def by (simp; blast)
next
  assume "e \<in> set table \<and> andWhere [repo_is (toLowerCase repoName),
            in_window (GetPrevDateISOString now prevDays) rng] e"
  then show "\<exists>r. [r' \<leftarrow> row_num_1 (baseRepoCteBuilder table now repoName rng prevDays).
                 pr_partition r' = pr_partition e] = [r]
            \<and> r \<in> set table \<and> andWhere [repo_is (toLowerCase repoName),
            in_window (GetPrevDateISOString now prevDays) rng] r
            \<and> pr_partition r = pr_partition e
            \<and> (\<forall>e' \<in> set table.
                  andWhere [repo_is (toLowerCase repoName),
            in_window (GetPrevDateISOString now prevDays) rng] e' \<and> pr_partition e' = pr_partition e \<longrightarrow>
                   event_time e' \<le> event_time r)"
    using cte_partition[where W = "andWhere [repo_is (toLowerCase repoName),
            in_window (GetPrevDateISOString now prevDays) rng]"
        and e = e and table = table and ?col2.0 = event_time and ?d2.0 = DESC
        and key = pr_partition and d = DESC]
    unfolding baseRepoCteBuilder_def Let_def by (simp; blast)
next
  assume "e \<in> set table \<and> andWhere [author_is (toLowerCase author),
            in_window (GetPrevDateISOString now (PageOptionsDto.prev_days_start_date pageOptionsDto))
              (PageOptionsDto.range_days pageOptionsDto)] e"
  then show "\<exists>r. [r' \<leftarrow> row_num_1 (findAllByPrAuthor_cte table now author pageOptionsDto).
                 pr_partition r' = pr_partition e] = [r]
            \<and> r \<in> set table \<and> andWhere [author_is (toLowerCase author),
            in_window (GetPrevDateISOString now (PageOptionsDto.prev_days_start_date pageOptionsDto))
              (PageOptionsDto.range_days pageOptionsDto)] r
            \<and> pr_partition r = pr_partition e
            \<and> (\<forall>e' \<in> set table.
                  andWhere [author_is (toLowerCase author),
            in_window (GetPrevDateISOString now (PageOptionsDto.prev_days_start_date pageOptionsDto))
              (PageOptionsDto.range_days pageOptionsDto)] e' \<and> pr_partition e' = pr_partition e \<longrightarrow>
                   (PageOptionsDto.orderDirection pageOptionsDto = DESC \<longrightarrow> event_time e' \<le> event_time r)
                   \<and> (PageOptionsDto.orderDirection pageOptionsDto = ASC \<longrightarrow> event_time r \<le> event_time e'))"
    using cte_partition[where W = "andWhere [author_is (toLowerCase author),
            in_window (GetPrevDateISOString now (PageOptionsDto.prev_days_start_date pageOptionsDto))
              (PageOptionsDto.range_days pageOptionsDto)]"
        and e = e and table = table and ?col2.0 = event_time
        and ?d2.0 = "PageOptionsDto.orderDirection pageOptionsDto" and key = pr_partition and d = "PageOptionsDto.orderDirection pageOptionsDto"]
    unfolding findAllByPrAuthor_cte_def Let_def by (simp; blast)
next
  assume "\<not> distinctAuthors q \<and> e \<in> set table \<and> andWhere (findAllWithFilters_where now rs uls q) e"
  then show "\<exists>r. [r' \<leftarrow> row_num_1 (findAllWithFilters_cte table now rs uls q).
                 pr_partition r' = pr_partition e] = [r]
            \<and> r \<in> set table \<and> andWhere (findAllWithFilters_where now rs uls q) r
            \<and> pr_partition r = pr_partition e
            \<and> (\<forall>e' \<in> set table.
                  andWhere (findAllWithFilters_where now rs uls q) e' \<and> pr_partition e' = pr_partition e \<longrightarrow>
                   (PageOptionsDto.orderDirection q = DESC \<longrightarrow> event_time e' \<le> event_time r)
                   \<and> (PageOptionsDto.orderDirection q = ASC \<longrightarrow> event_time r \<le> event_time e'))"
    using cte_partition[where W = "andWhere (findAllWithFilters_where now rs uls q)"
        and e = e and table = table and ?col2.0 = event_time
        and ?d2.0 = "PageOptionsDto.orderDirection q" and key = pr_partition and d = "PageOptionsDto.orderDirection q"]
    unfolding findAllWithFilters_cte_def Let_def by (simp; blast)
next
  assume "distinctAuthors q \<and> e \<in> set table \<and> andWhere (findAllWithFilters_where now rs uls q) e"
  then show "\<exists>r. [r' \<leftarrow> row_num_1 (findAllWithFilters_cte table now rs uls q).
                 author_repo_partition r' = author_repo_partition e] = [r]
            \<and> r \<in> set table \<and> andWhere (findAllWithFilters_where now rs uls q) r
            \<and> author_repo_partition r = author_repo_partition e
            \<and> (\<forall>e' \<in> set table.
                  andWhere (findAllWithFilters_where now rs uls q) e' \<and> author_repo_partition e' = author_repo_partition e \<longrightarrow>
                   (PageOptionsDto.orderDirection q = DESC \<longrightarrow> event_time e' \<le> event_time r)
                   \<and> (PageOptionsDto.orderDirection q = ASC \<longrightarrow> event_time r \<le> event_time e'))"
    using cte_partition[where W = "andWhere (findAllWithFilters_where now rs uls q)"
        and e = e and table = table and ?col2.0 = event_time
        and ?d2.0 = "PageOptionsDto.orderDirection q" and key = author_repo_partition and d = "PageOptionsDto.orderDirection q"]
    unfolding findAllWithFilters_cte_def Let_def by (simp; blast)
next
  assume "e \<in> set table \<and> andWhere (genPrHistogram_where now rs options) e"
  then show "\<exists>r. [r' \<leftarrow> row_num_1 (genPrHistogram_cte table now rs options).
                 pr_partition r' = pr_partition e] = [r]
            \<and> r \<in> set table \<and> andWhere (genPrHistogram_where now rs options) r
            \<and> pr_partition r = pr_partition e
            \<and> (\<forall>e' \<in> set table.
                  andWhere (genPrHistogram_where now rs options) e' \<and> pr_partition e' = pr_partition e \<longrightarrow>
                   (PullRequestHistogramDto.orderDirection options = DESC \<longrightarrow> event_time e' \<le> event_time r)
                   \<and> (PullRequestHistogramDto.orderDirection options = ASC \<longrightarrow> event_time r \<le> event_time e'))"
    using cte_partition[where W = "andWhere (genPrHistogram_where now rs options)"
        and e = e and table = table and ?col2.0 = event_time
        and ?d2.0 = "PullRequestHistogramDto.orderDirection options" and key = pr_partition and d = "PullRequestHistogramDto.orderDirection options"]
    unfolding genPrHistogram_cte_def Let_def by (simp; blast)
qed

theorem row_num_1_one_record_per_partition_witness:
  "example_event 2 7 ''a/b'' ''alice'' 200
     \<in> set [example_event 1 7 ''a/b'' ''alice'' 100, example_event 2 7 ''a/b'' ''alice'' 200,
            example_event 3 8 ''a/b'' ''alice'' 300]
   \<and> andWhere [author_is (toLowerCase ''alice''), in_window (GetPrevDateISOString 1000 0) 30]
        (example_event 2 7 ''a/b'' ''alice'' 200)
   \<and> [r' \<leftarrow> row_num_1 (basePrAuthorCteBuilder
         [example_event 1 7 ''a/b'' ''alice'' 100, example_event 2 7 ''a/b'' ''alice'' 200,
          example_event 3 8 ''a/b'' ''alice'' 300] 1000 ''alice'' 30 0).
         pr_partition r' = pr_partition (example_event 2 7 ''a/b'' ''alice'' 200)]
       = [example_event 2 7 ''a/b'' ''alice'' 200]
   \<and> PageOptionsDto.orderDirection example_asc_options = ASC
   \<and> [r' \<leftarrow> row_num_1 (findAllByPrAuthor_cte
         [example_event 1 7 ''a/b'' ''alice'' 100, example_event 2 7 ''a/b'' ''alice'' 200,
          example_event 3 8 ''a/b'' ''alice'' 300] 1000 ''alice'' example_asc_options).
         pr_partition r' = pr_partition (example_event 2 7 ''a/b'' ''alice'' 200)]
       = [example_event 1 7 ''a/b'' ''alice'' 100]"
proof -
  let ?e1 = "example_event 1 7 ''a/b'' ''alice'' 100"
  let ?e = "example_event 2 7 ''a/b'' ''alice'' 200"
  let ?t = "[?e1, ?e, example_event 3 8 ''a/b'' ''alice'' 300]"
  let ?W = "andWhere [author_is (toLowerCase ''alice''), in_window (GetPrevDateISOString 1000 0) 30]"
  have h1: "?e \<in> set ?t" "?e1 \<in> set ?t" by simp_all
  have h2: "?W ?e" "?W ?e1" by (simp_all add: ev_simps)
  have h3: "PageOptionsDto.orderDirection example_asc_options = ASC"
    "PageOptionsDto.prev_days_start_date example_asc_options = 0"
    "PageOptionsDto.range_days example_asc_options = 30"
    by (simp_all add: example_asc_options_def)
  have k: "pr_partition ?e1 = pr_partition ?e" by (simp add: ev_simps)
  note inst = row_num_1_one_record_per_partition[where e = ?e and table = ?t and now = 1000
      and author = "''alice''" and rng = 30 and prevDays = 0
      and pageOptionsDto = example_asc_options]
  from inst[THEN conjunct1] h1 h2
  obtain r where r: "[r' \<leftarrow> row_num_1 (basePrAuthorCteBuilder ?t 1000 ''alice'' 30 0).
                pr_partition r' = pr_partition ?e] = [r]"
     "r \<in> set ?t" "pr_partition r = pr_partition ?e"
     "\<forall>e' \<in> set ?t. ?W e' \<and> pr_partition e' = pr_partition ?e \<longrightarrow> event_time e' \<le> event_time r"
    by blast
  from r(4) h1 h2 have "event_time ?e \<le> event_time r" by blast
  with r(2,3) have d: "r = ?e" by (auto simp: example_event_def pr_partition_def)
  from inst[THEN conjunct2, THEN conjunct2, THEN conjunct1] h1 h2 h3
  obtain a where a: "[r' \<leftarrow> row_num_1 (findAllByPrAuthor_cte ?t 1000 ''alice'' example_asc_options).
                pr_partition r' = pr_partition ?e] = [a]"
     "a \<in> set ?t" "pr_partition a = pr_partition ?e"
     "\<forall>e' \<in> set ?t. ?W e' \<and> pr_partition e' = pr_partition ?e \<longrightarrow>
         (PageOptionsDto.orderDirection example_asc_options = ASC \<longrightarrow> event_time a \<le> event_time e')"
    by (simp only: h3) blast
  from a(4) h1 h2 h3 k have "event_time a \<le> event_time ?e1" by blast
  with a(2,3) have "a = ?e1" by (auto simp: example_event_def pr_partition_def)
  with a(1) r(1) d h1 h2 h3 show ?thesis by blast
qed

text \<open>
  C1 as stated fails: the same two events, tied on \<open>event_time\<close>, resolve to the one
  or to the other according to the order in which they are read; the query has no
  tie-break of its own.
\<close>

theorem latest_state_tie_break_counterexample:
  "set [example_event 1 7 ''a/b'' ''alice'' 100,
        (example_event 2 7 ''a/b'' ''alice'' 100)\<lparr>pr_state := ''closed''\<rparr>]
     = set [(example_event 2 7 ''a/b'' ''alice'' 100)\<lparr>pr_state := ''closed''\<rparr>,
            example_event 1 7 ''a/b'' ''alice'' 100]
   \<and> row_num_1 (basePrAuthorCteBuilder
        [example_event 1 7 ''a/b'' ''alice'' 100,
         (example_event 2 7 ''a/b'' ''alice'' 100)\<lparr>pr_state := ''closed''\<rparr>]
        1000 ''alice'' 30 0) = [example_event 1 7 ''a/b'' ''alice'' 100]
   \<and> row_num_1 (basePrAuthorCteBuilder
        [(example_event 2 7 ''a/b'' ''alice'' 100)\<lparr>pr_state := ''closed''\<rparr>,
         example_event 1 7 ''a/b'' ''alice'' 100]
        1000 ''alice'' 30 0) = [(example_event 2 7 ''a/b'' ''alice'' 100)\<lparr>pr_state := ''closed''\<rparr>]
   \<and> pr_state (example_event 1 7 ''a/b'' ''alice'' 100) = ''open''
   \<and> pr_state ((example_event 2 7 ''a/b'' ''alice'' 100)\<lparr>pr_state := ''closed''\<rparr>) = ''closed''"
  by (auto simp: basePrAuthorCteBuilder_def ROW_NUMBER_def row_num_1_def ev_simps)

subsection \<open>Pages\<close>

lemma searchAuthors_cte_skip_limit:
  "searchAuthors_cte table now rs (p\<lparr>skip := s, limit := l\<rparr>) = searchAuthors_cte table now rs p"
  by (simp add: searchAuthors_cte_def cong: if_cong)

text \<open>
  C2. Whatever skip \<open>s\<close> and limit \<open>l\<close> the options carry, the \<open>itemCount\<close> of the
  page metadata is the number of rows with \<open>row_num = 1\<close> of the CTE, which is the
  whole set: with skip 0 and limit \<open>n\<close> the items are the first \<open>n\<close> rows of that
  same set (all of them for the limit 0, which is no limit). The author search, when it passes its check of the criteria, returns a
  page whose \<open>itemCount\<close> is the count of the unsliced set of the same CTE, and that
  CTE does not read skip or limit.
\<close>

theorem itemCount_counts_unsliced_set:
  "itemCount (meta (execCommonTableExpression (pageOptionsDto\<lparr>skip := s, limit := l\<rparr>) cte))
     = length (row_num_1 cte)
   \<and> data (execCommonTableExpression (pageOptionsDto\<lparr>skip := 0, limit := n\<rparr>) cte)
     = (if n = 0 then row_num_1 cte else take n (row_num_1 cte))
   \<and> (searchAuthors table now rs (p\<lparr>skip := s, limit := l\<rparr>) \<noteq> Inl BadRequestException \<longrightarrow>
        (\<exists>page. searchAuthors table now rs (p\<lparr>skip := s, limit := l\<rparr>) = Inr page
           \<and> itemCount (meta page) = length (row_num_1 (searchAuthors_cte table now rs p))
           \<and> data page = map contributor_row
                (offset_limit s l (row_num_1 (searchAuthors_cte table now rs p)))))"
  by (simp add: execCommonTableExpression_def new_PageMetaDto_def offset_limit_def Let_def
      searchAuthors_def searchAuthors_cte_skip_limit)

theorem itemCount_counts_unsliced_set_witness:
  "searchAuthors [example_event 1 7 ''a/b'' ''alice'' 100, example_event 2 8 ''a/b'' ''alice'' 200,
            example_event 3 9 ''A/b'' ''bob'' 300] 1000 no_repos
       (example_author_options\<lparr>skip := 1, limit := 1\<rparr>) \<noteq> Inl BadRequestException
   \<and> (\<exists>page. searchAuthors [example_event 1 7 ''a/b'' ''alice'' 100,
            example_event 2 8 ''a/b'' ''alice'' 200,
            example_event 3 9 ''A/b'' ''bob'' 300] 1000 no_repos
       (example_author_options\<lparr>skip := 1, limit := 1\<rparr>) = Inr page
      \<and> itemCount (meta page) = 2 \<and> length (data page) = 1)"
proof -
  let ?t = "[example_event 1 7 ''a/b'' ''alice'' 100, example_event 2 8 ''a/b'' ''alice'' 200,
            example_event 3 9 ''A/b'' ''bob'' 300]"
  have h: "searchAuthors ?t 1000 no_repos (example_author_options\<lparr>skip := 1, limit := 1\<rparr>)
        \<noteq> Inl BadRequestException"
    by (simp add: searchAuthors_def example_author_options_def Let_def)
  have n: "length (row_num_1 (searchAuthors_cte ?t 1000 no_repos example_author_options)) = 2"
    by (simp add: searchAuthors_cte_def example_author_options_def ROW_NUMBER_def row_num_1_def
        orderBy_def repo_name_in_def ev_simps)
  from itemCount_counts_unsliced_set[where table = ?t and now = 1000 and rs = no_repos
      and p = example_author_options and s = 1 and l = 1 and pageOptionsDto = example_author_options
      and cte = "[] :: (DbPullRequestGitHubEvents \<times> nat) list" and n = 0] h
  obtain page where
    "searchAuthors ?t 1000 no_repos (example_author_options\<lparr>skip := 1, limit := 1\<rparr>) = Inr page"
    "itemCount (meta page)
       = length (row_num_1 (searchAuthors_cte ?t 1000 no_repos example_author_options))"
    "data page = map contributor_row
       (offset_limit 1 1 (row_num_1 (searchAuthors_cte ?t 1000 no_repos example_author_options)))"
    by blast
  with h n show ?thesis by (simp add: offset_limit_def)
qed

subsection \<open>Velocity\<close>

text \<open>
  The cast of an average \<open>S / n\<close> of integers, in integer arithmetic: the nearest
  integer, a half rounded away from zero.
\<close>

lemma to_INTEGER_quotient:
  assumes "0 < n"
  shows "to_INTEGER (of_int S / of_int n) =
           (if 0 \<le> S then (2 * S + n) div (2 * n) else - ((2 * (- S) + n) div (2 * n)))"
proof -
  have pos: "(0::rat) < of_int n" using assms by simp
  have sign: "(0 \<le> (of_int S / of_int n :: rat)) \<longleftrightarrow> 0 \<le> S"
    using pos by (simp add: zero_le_divide_iff)
  have a: "(of_int S / of_int n + 1 / 2 :: rat) = of_int (2 * S + n) / of_int (2 * n)"
    using pos by (simp add: field_simps)
  have b: "(- (of_int S / of_int n) + 1 / 2 :: rat) = of_int (2 * (- S) + n) / of_int (2 * n)"
    using pos by (simp add: field_simps)
  show ?thesis
    unfolding to_INTEGER_def sign a b floor_divide_of_int_eq by simp
qed

lemma somes_of_case:
  "non_null (map (\<lambda>e. if P e then Some (f e) else None) rows) = map f (filter P rows)"
  by (induction rows) auto

lemma somes_of_Some: "non_null (map (\<lambda>e. Some (f e)) rows) = map f rows"
  by (induction rows) auto

lemma velocity_value:
  "execVelocityCommonTableExpression cte =
     (let merged = filter pr_is_merged (row_num_1 cte);
          S = sum_list (map days_to_merge merged); n = int (length merged)
      in if merged = [] then 0
         else if 0 \<le> S then (2 * S + n) div (2 * n) else - ((2 * (- S) + n) div (2 * n)))"
proof (cases "filter pr_is_merged (row_num_1 cte) = []")
  case True
  then show ?thesis
    using floor_divide_of_int_eq[of 1 2, where ?'a = rat]
    by (simp add: execVelocityCommonTableExpression_def AVG_def COALESCE_def to_INTEGER_def somes_of_Some)
next
  case False
  then have "0 < int (length (filter pr_is_merged (row_num_1 cte)))" by simp
  from to_INTEGER_quotient[OF this] False show ?thesis
    by (simp add: execVelocityCommonTableExpression_def AVG_def COALESCE_def somes_of_Some Let_def)
qed

lemma pr_velocity_of_eq:
  "pr_velocity_of (row_num_1 cte) = execVelocityCommonTableExpression cte"
  by (simp add: pr_velocity_of_def execVelocityCommonTableExpression_def AVG_def somes_of_case somes_of_Some)

lemma round_bounds_nonneg:
  fixes S n :: int
  assumes "0 < n" "0 \<le> S"
  shows "(2 * ((2 * S + n) div (2 * n)) - 1) * n \<le> 2 * S \<and> 2 * S < (2 * ((2 * S + n) div (2 * n)) + 1) * n"
proof -
  define v where "v = (2 * S + n) div (2 * n)"
  have "2 * n * v + (2 * S + n) mod (2 * n) = 2 * S + n"
    unfolding v_def by simp
  moreover have "0 \<le> (2 * S + n) mod (2 * n)" "(2 * S + n) mod (2 * n) < 2 * n"
    using assms by simp_all
  ultimately have "2 * n * v \<le> 2 * S + n" "2 * S + n < 2 * n * v + 2 * n" by linarith+
  then show ?thesis unfolding v_def[symmetric] by (simp add: algebra_simps)
qed


lemma merged_five_days_later: "to_date (t + days 5) - to_date t = 5"
proof -
  have "(t + 5 * 86400) div 86400 = t div 86400 + (5::int)"
    using div_mult_self1[of "86400::int" t 5] by simp
  then show ?thesis by (simp add: to_date_def days_def)
qed


lemma round_bounds_neg:
  fixes S n :: int
  assumes "0 < n" "S < 0"
  shows "(2 * (- ((2 * (- S) + n) div (2 * n))) - 1) * n < 2 * S
         \<and> 2 * S \<le> (2 * (- ((2 * (- S) + n) div (2 * n))) + 1) * n"
proof -
  define u where "u = (2 * (- S) + n) div (2 * n)"
  have "2 * n * u + (2 * (- S) + n) mod (2 * n) = 2 * (- S) + n"
    unfolding u_def by simp
  moreover have "0 \<le> (2 * (- S) + n) mod (2 * n)" "(2 * (- S) + n) mod (2 * n) < 2 * n"
    using assms by simp_all
  ultimately have "2 * n * u \<le> 2 * (- S) + n" "2 * (- S) + n < 2 * n * u + 2 * n" by linarith+
  then show ?thesis unfolding u_def[symmetric] by (simp add: algebra_simps)
qed

text \<open>
  C5 (as amended). Over the merged records among the rows with \<open>row_num = 1\<close>:
  with no merged record the velocity is 0 (never NULL, never an error); otherwise it
  is the average of \<open>merged_at date - created_at date\<close> rounded to the nearest whole
  day, a half rounded away from zero (for the sum \<open>S\<close> of the differences over \<open>n\<close>
  records, \<open>(2v - 1) n \<le> 2 S < (2v + 1) n\<close> when \<open>S\<close> is not negative, and
  \<open>(2v - 1) n < 2 S \<le> (2v + 1) n\<close> when it is). A single record merged 5 days after
  its creation gives 5. The \<open>pr_velocity\<close> column of \<open>findPrStatsByRepo\<close> and of
  the histogram is the same value over the same rows.
\<close>

theorem velocity_is_rounded_average:
  "(filter pr_is_merged (row_num_1 cte) = [] \<longrightarrow> execVelocityCommonTableExpression cte = 0)
   \<and> (filter pr_is_merged (row_num_1 cte) \<noteq> [] \<and>
        0 \<le> sum_list (map days_to_merge (filter pr_is_merged (row_num_1 cte))) \<longrightarrow>
        (2 * execVelocityCommonTableExpression cte - 1)
           * int (length (filter pr_is_merged (row_num_1 cte)))
          \<le> 2 * sum_list (map days_to_merge (filter pr_is_merged (row_num_1 cte)))
        \<and> 2 * sum_list (map days_to_merge (filter pr_is_merged (row_num_1 cte)))
          < (2 * execVelocityCommonTableExpression cte + 1)
              * int (length (filter pr_is_merged (row_num_1 cte))))
   \<and> (filter pr_is_merged (row_num_1 cte) \<noteq> [] \<and>
        sum_list (map days_to_merge (filter pr_is_merged (row_num_1 cte))) < 0 \<longrightarrow>
        (2 * execVelocityCommonTableExpression cte - 1)
           * int (length (filter pr_is_merged (row_num_1 cte)))
          < 2 * sum_list (map days_to_merge (filter pr_is_merged (row_num_1 cte)))
        \<and> 2 * sum_list (map days_to_merge (filter pr_is_merged (row_num_1 cte)))
          \<le> (2 * execVelocityCommonTableExpression cte + 1)
              * int (length (filter pr_is_merged (row_num_1 cte))))
   \<and> (\<forall>r. row_num_1 cte = [r] \<and> pr_is_merged r \<and> pr_merged_at r = pr_created_at r + days 5
          \<longrightarrow> execVelocityCommonTableExpression cte = 5)
   \<and> pr_velocity_of (row_num_1 cte) = execVelocityCommonTableExpression cte"
proof -
  let ?m = "filter pr_is_merged (row_num_1 cte)"
  let ?S = "sum_list (map days_to_merge ?m)"
  let ?n = "int (length ?m)"
  let ?v = "execVelocityCommonTableExpression cte"
  have 1: "?m = [] \<longrightarrow> ?v = 0"
    by (simp add: velocity_value)
  have 2: "?m \<noteq> [] \<and> 0 \<le> ?S \<longrightarrow> (2 * ?v - 1) * ?n \<le> 2 * ?S \<and> 2 * ?S < (2 * ?v + 1) * ?n"
  proof
    assume a: "?m \<noteq> [] \<and> 0 \<le> ?S"
    then have "0 < ?n" by simp
    from round_bounds_nonneg[OF this] a
    show "(2 * ?v - 1) * ?n \<le> 2 * ?S \<and> 2 * ?S < (2 * ?v + 1) * ?n"
      by (simp add: velocity_value Let_def)
  qed
  have 3: "?m \<noteq> [] \<and> ?S < 0 \<longrightarrow> (2 * ?v - 1) * ?n < 2 * ?S \<and> 2 * ?S \<le> (2 * ?v + 1) * ?n"
  proof
    assume a: "?m \<noteq> [] \<and> ?S < 0"
    then have "0 < ?n" by simp
    from round_bounds_neg[OF this] a
    show "(2 * ?v - 1) * ?n < 2 * ?S \<and> 2 * ?S \<le> (2 * ?v + 1) * ?n"
      by (simp add: velocity_value Let_def)
  qed
  have 4: "\<forall>r. row_num_1 cte = [r] \<and> pr_is_merged r \<and> pr_merged_at r = pr_created_at r + days 5
          \<longrightarrow> ?v = 5"
    using merged_five_days_later by (auto simp: velocity_value days_to_merge_def)
  show ?thesis using 1 2 3 4 pr_velocity_of_eq by blast
qed

lemmas cte_simps = basePrAuthorCteBuilder_def ROW_NUMBER_def row_num_1_def example_merged_event_def

theorem velocity_is_rounded_average_witness:
  "filter pr_is_merged (row_num_1 (basePrAuthorCteBuilder [] 1000000 ''alice'' 30 0)) = []
   \<and> findVelocityByPrAuthor [] 1000000 ''alice'' 30 0 = 0
   \<and> row_num_1 (basePrAuthorCteBuilder
        [example_merged_event 1 7 ''a/b'' ''alice'' 1000 433000] 1000000 ''alice'' 30 0)
       = [example_merged_event 1 7 ''a/b'' ''alice'' 1000 433000]
   \<and> pr_is_merged (example_merged_event 1 7 ''a/b'' ''alice'' 1000 433000)
   \<and> pr_merged_at (example_merged_event 1 7 ''a/b'' ''alice'' 1000 433000)
       = pr_created_at (example_merged_event 1 7 ''a/b'' ''alice'' 1000 433000) + days 5
   \<and> findVelocityByPrAuthor
        [example_merged_event 1 7 ''a/b'' ''alice'' 1000 433000] 1000000 ''alice'' 30 0 = 5"
proof -
  let ?r = "example_merged_event 1 7 ''a/b'' ''alice'' 1000 433000"
  let ?c0 = "basePrAuthorCteBuilder [] 1000000 ''alice'' 30 0"
  let ?c1 = "basePrAuthorCteBuilder [?r] 1000000 ''alice'' 30 0"
  have h0: "filter pr_is_merged (row_num_1 ?c0) = []"
    by (simp add: cte_simps)
  have h1: "row_num_1 ?c1 = [?r] \<and> pr_is_merged ?r \<and> pr_merged_at ?r = pr_created_at ?r + days 5"
    by (simp add: cte_simps ev_simps)
  from velocity_is_rounded_average[of ?c0] h0
  have v0: "execVelocityCommonTableExpression ?c0 = 0" by blast
  from velocity_is_rounded_average[of ?c1] h1
  have v1: "execVelocityCommonTableExpression ?c1 = 5" by blast
  from h0 h1 v0 v1 show ?thesis by (simp add: findVelocityByPrAuthor_def)
qed

text \<open>
  C5 as stated fails: two merged records, merged 1 day and 2 days after creation,
  average 1.5 days; the velocity is 2, not the truncated 1.
\<close>

theorem velocity_truncation_counterexample:
  "map days_to_merge (filter pr_is_merged (row_num_1 (basePrAuthorCteBuilder
      [example_merged_event 1 7 ''a/b'' ''alice'' 0 86400,
       example_merged_event 2 8 ''a/b'' ''alice'' 0 172800] 200000 ''alice'' 30 0))) = [1, 2]
   \<and> findVelocityByPrAuthor
      [example_merged_event 1 7 ''a/b'' ''alice'' 0 86400,
       example_merged_event 2 8 ''a/b'' ''alice'' 0 172800] 200000 ''alice'' 30 0 = 2"
proof -
  let ?t = "[example_merged_event 1 7 ''a/b'' ''alice'' 0 86400,
       example_merged_event 2 8 ''a/b'' ''alice'' 0 172800]"
  have r: "row_num_1 (basePrAuthorCteBuilder ?t 200000 ''alice'' 30 0) = ?t"
    by (simp add: cte_simps ev_simps)
  have f: "filter pr_is_merged ?t = ?t"
    by (simp add: example_merged_event_def)
  have d: "map days_to_merge ?t = [1, 2]"
    by (simp add: example_merged_event_def example_event_def days_to_merge_def to_date_def)
  show ?thesis
    unfolding findVelocityByPrAuthor_def velocity_value r f d Let_def by simp
qed

subsection \<open>The status filter\<close>

lemma set_row_num_1_ROW_NUMBER:
  "set (row_num_1 (ROW_NUMBER key col direction rows)) \<subseteq> set rows"
proof -
  have "set (row_num_1 (ROW_NUMBER key col direction rows))
          \<subseteq> set (map fst (ROW_NUMBER key col direction rows))"
    by (auto simp: row_num_1_def)
  then show ?thesis by (simp add: ROW_NUMBER_def map_fst_number_rows)
qed

lemma row_num_1_orderBy:
  "set (row_num_1 (orderBy col direction cte)) = set (row_num_1 cte)"
  by (simp add: row_num_1_def orderBy_def)

lemma findAllWithFilters_where_status:
  assumes "status p = Some st" and "st \<noteq> []"
  shows "findAllWithFilters_where now rs uls p
           = findAllWithFilters_where now rs uls (p\<lparr>status := None\<rparr>) @ [status_is st]"
  using assms by (simp add: findAllWithFilters_where_def Let_def cong: if_cong)

text \<open>
  C7 (as amended). When a status is supplied (defined and not empty), the status
  filter keeps an event if and only if the event's stored \<open>pr_state\<close> equals the
  lower-cased status: the other conditions are those of the same options without
  the status. The comparison ignores letter case in the supplied status only. Every
  item of the listing has that state.
\<close>

theorem status_filter_compares_with_lowered_status:
  assumes "status p = Some st" and "st \<noteq> []"
  shows "(andWhere (findAllWithFilters_where now rs uls p) e
            \<longleftrightarrow> andWhere (findAllWithFilters_where now rs uls (p\<lparr>status := None\<rparr>)) e
                \<and> pr_state e = toLowerCase st)
         \<and> (\<forall>r \<in> set (data (findAllWithFilters table now rs uls p)). pr_state r = toLowerCase st)"
proof -
  have w: "andWhere (findAllWithFilters_where now rs uls p) e
            \<longleftrightarrow> andWhere (findAllWithFilters_where now rs uls (p\<lparr>status := None\<rparr>)) e
                \<and> pr_state e = toLowerCase st" for e
    by (simp add: findAllWithFilters_where_status[OF assms] andWhere_def status_is_def)
  let ?rows = "filter (andWhere (findAllWithFilters_where now rs uls p)) table"
  have "set (row_num_1 (findAllWithFilters_cte table now rs uls p)) \<subseteq> set ?rows"
    using set_row_num_1_ROW_NUMBER[of author_repo_partition event_time _ ?rows]
      set_row_num_1_ROW_NUMBER[of pr_partition event_time _ ?rows]
    by (simp add: findAllWithFilters_cte_def Let_def row_num_1_orderBy)
  moreover have "set (data (findAllWithFilters table now rs uls p))
                   \<subseteq> set (row_num_1 (findAllWithFilters_cte table now rs uls p))"
    by (auto simp: findAllWithFilters_def execCommonTableExpression_def offset_limit_def Let_def
        dest: in_set_takeD in_set_dropD split: if_splits)
  ultimately have "\<forall>r \<in> set (data (findAllWithFilters table now rs uls p)).
                     andWhere (findAllWithFilters_where now rs uls p) r"
    by auto
  with w show ?thesis by blast
qed

theorem status_filter_compares_with_lowered_status_witness:
  "status (example_page_options\<lparr>status := Some ''OPEN''\<rparr>) = Some ''OPEN'' \<and> ''OPEN'' \<noteq> []
   \<and> andWhere (findAllWithFilters_where 1000 no_repos no_users
         (example_page_options\<lparr>status := Some ''OPEN''\<rparr>)) (example_event 1 7 ''a/b'' ''alice'' 100)
   \<and> data (findAllWithFilters [example_event 1 7 ''a/b'' ''alice'' 100] 1000 no_repos no_users
         (example_page_options\<lparr>status := Some ''OPEN''\<rparr>)) = [example_event 1 7 ''a/b'' ''alice'' 100]"
proof -
  let ?p = "example_page_options\<lparr>status := Some ''OPEN''\<rparr>"
  let ?e = "example_event 1 7 ''a/b'' ''alice'' 100"
  have h1: "status ?p = Some ''OPEN''" by simp
  have h2: "''OPEN'' \<noteq> []" by simp
  have a: "andWhere (findAllWithFilters_where 1000 no_repos no_users (?p\<lparr>status := None\<rparr>)) ?e
           \<and> pr_state ?e = toLowerCase ''OPEN''"
    by (simp add: findAllWithFilters_where_def example_page_options_def repo_name_in_def ev_simps)
  from status_filter_compares_with_lowered_status[OF h1 h2, of 1000 no_repos no_users ?e "[]"] a
  have b: "andWhere (findAllWithFilters_where 1000 no_repos no_users ?p) ?e" by blast
  have c: "data (findAllWithFilters [?e] 1000 no_repos no_users ?p) = [?e]"
    using b by (simp add: findAllWithFilters_def findAllWithFilters_cte_def
      execCommonTableExpression_def offset_limit_def example_page_options_def
      ROW_NUMBER_def row_num_1_def orderBy_def)
  from h1 h2 b c show ?thesis by blast
qed

text \<open>
  C7 as stated fails: a stored state \<open>OPEN\<close> differs from the status \<open>open\<close> only
  in letter case, the event is listed without the status filter, and the filter
  drops it.
\<close>

theorem status_filter_counterexample:
  "toLowerCase (pr_state ((example_event 1 7 ''a/b'' ''alice'' 100)\<lparr>pr_state := ''OPEN''\<rparr>))
     = toLowerCase ''open''
   \<and> data (findAllWithFilters [(example_event 1 7 ''a/b'' ''alice'' 100)\<lparr>pr_state := ''OPEN''\<rparr>]
        1000 no_repos no_users (example_page_options\<lparr>status := Some ''open''\<rparr>)) = []
   \<and> data (findAllWithFilters [(example_event 1 7 ''a/b'' ''alice'' 100)\<lparr>pr_state := ''OPEN''\<rparr>]
        1000 no_repos no_users (example_page_options\<lparr>status := None\<rparr>))
     = [(example_event 1 7 ''a/b'' ''alice'' 100)\<lparr>pr_state := ''OPEN''\<rparr>]"
  by (simp add: findAllWithFilters_def findAllWithFilters_cte_def findAllWithFilters_where_def
      execCommonTableExpression_def offset_limit_def example_page_options_def
      ROW_NUMBER_def row_num_1_def orderBy_def repo_name_in_def status_is_def ev_simps)

subsection \<open>Histograms\<close>




















subsection \<open>Recent contributors\<close>

lemma set_innerJoin:
  "set (innerJoin left right on) = {(a, b). a \<in> set left \<and> b \<in> set right \<and> on a b}"
  by (auto simp: innerJoin_def)

lemma getContributorRangeQueryBuilder_Inr:
  assumes "ids \<noteq> []"
  shows "\<exists>entities.
     getContributorRangeQueryBuilder pulls repos_t start_date start_range end_range ids = Inr entities
     \<and> distinct (map author_login entities)
     \<and> set (map author_login entities) =
         {pull_request_author_login pr | pr.
            pr \<in> set pulls \<and> pull_request_repo_id pr \<in> set repos_t
            \<and> pull_request_repo_id pr \<in> set ids
            \<and> start_date - days end_range \<le> pull_request_updated_at pr
            \<and> pull_request_updated_at pr < start_date - days start_range
            \<and> pull_request_author_login pr \<noteq> []}"
proof -
  let ?logins = "remdups (map (\<lambda>(pr, repo_row). pull_request_author_login pr)
          (filter (\<lambda>(pr, repo_row).
                      pull_request_updated_at pr \<ge> start_date - days end_range
                    \<and> pull_request_updated_at pr < start_date - days start_range
                    \<and> pull_request_author_login pr \<noteq> []
                    \<and> repo_row \<in> set ids)
             (innerJoin pulls repos_t
                (\<lambda>pr repo_row. pull_request_repo_id pr = repo_row))))"
  let ?entities = "map (\<lambda>l. \<lparr>author_login = l, user_id = None, updated_at = None\<rparr>) ?logins"
  have e: "getContributorRangeQueryBuilder pulls repos_t start_date start_range end_range ids
             = Inr ?entities"
    using assms by (simp add: getContributorRangeQueryBuilder_def)
  have m: "map author_login ?entities = ?logins"
    by (simp add: comp_def)
  have s: "set ?logins = {pull_request_author_login pr | pr.
            pr \<in> set pulls \<and> pull_request_repo_id pr \<in> set repos_t
            \<and> pull_request_repo_id pr \<in> set ids
            \<and> start_date - days end_range \<le> pull_request_updated_at pr
            \<and> pull_request_updated_at pr < start_date - days start_range
            \<and> pull_request_author_login pr \<noteq> []}"
    by (auto simp: set_innerJoin image_iff)
  show ?thesis
    unfolding e using m s by (metis distinct_remdups)
qed

lemma split_not_Nil: "split sep s \<noteq> []"
  by (induction s) (auto split: list.splits)


text \<open>
  C10. \<open>findAllRecentContributors\<close> does not read the caller's skip and limit: the
  result is the same for every skip \<open>s\<close> and limit \<open>l\<close>. When \<open>repoIds\<close> is
  supplied it returns a page whose items are every distinct \<open>author_login\<close> (each
  once) of the pull requests of the listed repositories updated in the current
  window \<open>[startDate - range, startDate)\<close> with a login that is not empty, and whose
  metadata is built with the limit replaced by the item count and the skip by 0: a
  single page holding the whole set. Without \<open>repoIds\<close> the range query refuses the
  empty id list.
\<close>

theorem findAllRecentContributors_single_page:
  "findAllRecentContributors pulls repos_t now (p\<lparr>skip := s, limit := l\<rparr>)
     = findAllRecentContributors pulls repos_t now p
   \<and> (PullRequestContributorInsightsDto.repoIds p = Some idsText \<longrightarrow>
       (\<exists>page. findAllRecentContributors pulls repos_t now p = Inr page
          \<and> distinct (map author_login (data page))
          \<and> set (map author_login (data page)) =
               {pull_request_author_login pr | pr.
                  pr \<in> set pulls \<and> pull_request_repo_id pr \<in> set repos_t
                  \<and> pull_request_repo_id pr \<in> set (split CHR '','' idsText)
                  \<and> GetPrevDateISOString now (PageOptionsDto.prev_days_start_date p)
                        - days (PageOptionsDto.range_days p) \<le> pull_request_updated_at pr
                  \<and> pull_request_updated_at pr
                        < GetPrevDateISOString now (PageOptionsDto.prev_days_start_date p)
                  \<and> pull_request_author_login pr \<noteq> []}
          \<and> meta page = \<lparr>itemCount = length (data page), meta_limit = length (data page),
                          meta_skip = 0\<rparr>))
   \<and> (PullRequestContributorInsightsDto.repoIds p = None \<longrightarrow>
        findAllRecentContributors pulls repos_t now p = Inl BadRequestException)"
proof (intro conjI impI)
  show "findAllRecentContributors pulls repos_t now (p\<lparr>skip := s, limit := l\<rparr>)
          = findAllRecentContributors pulls repos_t now p"
    by (simp add: findAllRecentContributors_def new_PageMetaDto_def Let_def split: sum.splits)
next
  assume t: "PullRequestContributorInsightsDto.repoIds p = Some idsText"
  let ?start = "GetPrevDateISOString now (PageOptionsDto.prev_days_start_date p)"
  from getContributorRangeQueryBuilder_Inr[OF split_not_Nil,
      of pulls repos_t ?start 0 "PageOptionsDto.range_days p" "CHR '',''" idsText]
  obtain entities where e:
    "getContributorRangeQueryBuilder pulls repos_t ?start 0 (PageOptionsDto.range_days p)
       (split CHR '','' idsText) = Inr entities"
    "distinct (map author_login entities)"
    "set (map author_login entities) =
         {pull_request_author_login pr | pr.
            pr \<in> set pulls \<and> pull_request_repo_id pr \<in> set repos_t
            \<and> pull_request_repo_id pr \<in> set (split CHR '','' idsText)
            \<and> ?start - days (PageOptionsDto.range_days p) \<le> pull_request_updated_at pr
            \<and> pull_request_updated_at pr < ?start - days 0
            \<and> pull_request_author_login pr \<noteq> []}"
    by blast
  have "findAllRecentContributors pulls repos_t now p
          = Inr \<lparr>data = entities,
                 meta = \<lparr>itemCount = length entities, meta_limit = length entities,
                         meta_skip = 0\<rparr>\<rparr>"
    using t e(1) by (simp add: findAllRecentContributors_def new_PageMetaDto_def Let_def)
  with e(2,3) show "\<exists>page. findAllRecentContributors pulls repos_t now p = Inr page
          \<and> distinct (map author_login (data page))
          \<and> set (map author_login (data page)) =
               {pull_request_author_login pr | pr.
                  pr \<in> set pulls \<and> pull_request_repo_id pr \<in> set repos_t
                  \<and> pull_request_repo_id pr \<in> set (split CHR '','' idsText)
                  \<and> ?start - days (PageOptionsDto.range_days p) \<le> pull_request_updated_at pr
                  \<and> pull_request_updated_at pr < ?start
                  \<and> pull_request_author_login pr \<noteq> []}
          \<and> meta page = \<lparr>itemCount = length (data page), meta_limit = length (data page),
                          meta_skip = 0\<rparr>"
    by (simp add: days_def)
next
  assume "PullRequestContributorInsightsDto.repoIds p = None"
  then show "findAllRecentContributors pulls repos_t now p = Inl BadRequestException"
    by (simp add: findAllRecentContributors_def getContributorRangeQueryBuilder_def Let_def)
qed

theorem findAllRecentContributors_single_page_witness:
  "PullRequestContributorInsightsDto.repoIds example_insights_options = Some ''1,2''
   \<and> skip example_insights_options = 5 \<and> limit example_insights_options = 1
   \<and> (\<exists>page. findAllRecentContributors
      [\<lparr>pull_request_author_login = ''alice'', pull_request_updated_at = 100,
        pull_request_repo_id = ''1''\<rparr>,
       \<lparr>pull_request_author_login = ''bob'', pull_request_updated_at = 200,
        pull_request_repo_id = ''2''\<rparr>,
       \<lparr>pull_request_author_login = ''alice'', pull_request_updated_at = 300,
        pull_request_repo_id = ''2''\<rparr>]
      [''1'', ''2'', ''3''] 1000 example_insights_options = Inr page
      \<and> map author_login (data page) = [''bob'', ''alice'']
      \<and> meta page = \<lparr>itemCount = 2, meta_limit = 2, meta_skip = 0\<rparr>)"
proof -
  let ?pulls = "[\<lparr>pull_request_author_login = ''alice'', pull_request_updated_at = 100,
        pull_request_repo_id = ''1''\<rparr>,
       \<lparr>pull_request_author_login = ''bob'', pull_request_updated_at = 200,
        pull_request_repo_id = ''2''\<rparr>,
       \<lparr>pull_request_author_login = ''alice'', pull_request_updated_at = 300,
        pull_request_repo_id = ''2''\<rparr>]"
  have h: "PullRequestContributorInsightsDto.repoIds example_insights_options = Some ''1,2''"
    "skip example_insights_options = 5" "limit example_insights_options = 1"
    by (simp_all add: example_insights_options_def)
  from findAllRecentContributors_single_page[where pulls = ?pulls
      and repos_t = "[''1'', ''2'', ''3'']" and now = 1000 and p = example_insights_options
      and s = 5 and l = 1 and idsText = "''1,2''"] h(1)
  obtain page where p: "findAllRecentContributors ?pulls [''1'', ''2'', ''3''] 1000
      example_insights_options = Inr page"
    "meta page = \<lparr>itemCount = length (data page), meta_limit = length (data page), meta_skip = 0\<rparr>"
    by blast
  have d: "map_sum id (\<lambda>pg. map author_login (data pg))
       (findAllRecentContributors ?pulls [''1'', ''2'', ''3''] 1000 example_insights_options)
       = Inr [''bob'', ''alice'']"
    by (simp add: findAllRecentContributors_def getContributorRangeQueryBuilder_def innerJoin_def
        example_insights_options_def GetPrevDateISOString_def days_def Let_def)
  from p d have m: "map author_login (data page) = [''bob'', ''alice'']" by simp
  then have "length (map author_login (data page)) = 2" by simp
  then have "length (data page) = 2" by simp
  with p h m show ?thesis by simp
qed

subsection \<open>Cohorts\<close>

lemma in_leftJoin_row:
  "(a, c) \<in> set (case filter (on l) right of
                     [] \<Rightarrow> [(l, None)]
                   | ms \<Rightarrow> map (\<lambda>r. (l, Some r)) ms)
   \<longleftrightarrow> a = l \<and> (case c of None \<Rightarrow> filter (on l) right = []
                         | Some b \<Rightarrow> b \<in> set right \<and> on l b)"
proof (cases "filter (on l) right")
  case Nil
  then show ?thesis by (auto simp: filter_empty_conv split: option.splits)
next
  case (Cons m ms)
  have mem: "x \<in> set (m # ms) \<longleftrightarrow> x \<in> set right \<and> on l x" for x
    unfolding Cons[symmetric] by simp
  have "(a, c) \<in> set (map (\<lambda>r. (l, Some r)) (m # ms))
          \<longleftrightarrow> a = l \<and> (\<exists>r \<in> set (m # ms). c = Some r)"
    by auto
  also have "\<dots> \<longleftrightarrow> a = l \<and> (case c of None \<Rightarrow> False | Some b \<Rightarrow> b \<in> set right \<and> on l b)"
    using mem by (cases c) auto
  finally show ?thesis using Cons by (simp split: option.splits)
qed

text \<open>The rows of a left join.\<close>

lemma in_leftJoin:
  "(a, c) \<in> set (leftJoin left right on)
   \<longleftrightarrow> a \<in> set left \<and> (case c of None \<Rightarrow> filter (on a) right = []
                               | Some b \<Rightarrow> b \<in> set right \<and> on a b)"
proof -
  have "(a, c) \<in> set (leftJoin left right on)
        \<longleftrightarrow> (\<exists>l \<in> set left. (a, c) \<in> set (case filter (on l) right of
                     [] \<Rightarrow> [(l, None)]
                   | ms \<Rightarrow> map (\<lambda>r. (l, Some r)) ms))"
    by (simp add: leftJoin_def)
  also have "\<dots> \<longleftrightarrow> (\<exists>l \<in> set left. a = l \<and> (case c of None \<Rightarrow> filter (on l) right = []
                         | Some b \<Rightarrow> b \<in> set right \<and> on l b))"
    by (simp only: in_leftJoin_row)
  finally show ?thesis by blast
qed

lemma in_map_joined:
  "e \<in> set (map (\<lambda>((e, cur), prev). e) (filter (\<lambda>((e, cur), prev). P cur prev) joined))
   \<longleftrightarrow> (\<exists>cur prev. ((e, cur), prev) \<in> set joined \<and> P cur prev)"
  by force

text \<open>
  What the three filters let through. The active filter asks that the author be in
  the current derived table and that the previous derived table have a row at all:
  its second join never compares with \<open>previous_month_prs.pr_author_login\<close>.
\<close>

lemma in_applyActiveContributorsFilter:
  "e \<in> set (applyActiveContributorsFilter table reposText startDate rng) \<longleftrightarrow>
     e \<in> set table
     \<and> pr_author_login e \<in> set (current_month_prs table reposText startDate rng)
     \<and> previous_month_prs table reposText startDate rng \<noteq> []"
proof -
  let ?cur = "current_month_prs table reposText startDate rng"
  let ?prev = "previous_month_prs table reposText startDate rng"
  have "e \<in> set (applyActiveContributorsFilter table reposText startDate rng)
        \<longleftrightarrow> (\<exists>c p. e \<in> set table \<and> c \<in> set ?cur \<and> pr_author_login e = c \<and> p \<in> set ?prev)"
    unfolding applyActiveContributorsFilter_def in_map_joined
    by (auto simp: in_leftJoin split: option.splits)
  also have "\<dots> \<longleftrightarrow> e \<in> set table \<and> pr_author_login e \<in> set ?cur \<and> ?prev \<noteq> []"
    by (cases ?prev) auto
  finally show ?thesis .
qed

lemma in_applyNewContributorsFilter:
  "e \<in> set (applyNewContributorsFilter table reposText startDate rng) \<longleftrightarrow>
     e \<in> set table
     \<and> pr_author_login e \<in> set (current_month_prs table reposText startDate rng)
     \<and> pr_author_login e \<notin> set (previous_month_prs table reposText startDate rng)"
  unfolding applyNewContributorsFilter_def in_map_joined
  by (auto simp: in_leftJoin filter_empty_conv split: option.splits)

lemma in_applyAlumniContributorsFilter:
  "e \<in> set (applyAlumniContributorsFilter table reposText startDate rng) \<longleftrightarrow>
     e \<in> set table
     \<and> pr_author_login e \<notin> set (current_month_prs table reposText startDate rng)
     \<and> pr_author_login e \<in> set (previous_month_prs table reposText startDate rng)"
  unfolding applyAlumniContributorsFilter_def in_map_joined
  by (auto simp: in_leftJoin filter_empty_conv split: option.splits)

lemma keys_row_num_1:
  "key ` set (row_num_1 (ROW_NUMBER key col direction rows)) = key ` set rows"
proof
  show "key ` set (row_num_1 (ROW_NUMBER key col direction rows)) \<subseteq> key ` set rows"
    using set_row_num_1_ROW_NUMBER[of key col direction rows] by blast
  show "key ` set rows \<subseteq> key ` set (row_num_1 (ROW_NUMBER key col direction rows))"
  proof
    fix k assume "k \<in> key ` set rows"
    then obtain e where e: "e \<in> set rows" "k = key e" by blast
    from row_num_1_unique[OF e(1), of key col direction]
    obtain r where r: "[r' \<leftarrow> row_num_1 (ROW_NUMBER key col direction rows). key r' = key e] = [r]"
      "key r = key e" by blast
    have "r \<in> set [r' \<leftarrow> row_num_1 (ROW_NUMBER key col direction rows). key r' = key e]"
      unfolding r(1) by simp
    then have "r \<in> set (row_num_1 (ROW_NUMBER key col direction rows))" by simp
    with r(2) e(2) show "k \<in> key ` set (row_num_1 (ROW_NUMBER key col direction rows))"
      by (metis imageI)
  qed
qed

lemma keys_of_cte:
  "set (map key (row_num_1 (orderBy col direction (ROW_NUMBER key col' direction' rows))))
     = key ` set rows"
  by (simp add: row_num_1_orderBy keys_row_num_1)

text \<open>
  The logins of the three cohorts, for every table and every options: an author of
  an event that passes the window and repository conditions of the query, with the
  login in the current derived table (of lower-cased logins), and for
  \<^item> active: any row at all in the previous derived table;
  \<^item> new: the login not in the previous derived table;
  \<^item> alumni (over the doubled window): the login in the previous derived table and
    not in the current one.
\<close>

lemma active_cohort_logins:
  "l \<in> set (cohort_logins table now p ''active'') \<longleftrightarrow>
     (\<exists>e \<in> set table. pr_author_login e = l
         \<and> in_window (GetPrevDateISOString now (PageOptionsDto.prev_days_start_date p))
              (PageOptionsDto.range_days p) e
         \<and> (PullRequestContributorInsightsDto.repos p = []
             \<or> repo_name_in (split CHR '',''
                  (toLowerCase (PullRequestContributorInsightsDto.repos p))) e))
     \<and> l \<in> set (current_month_prs table
                   (toLowerCase (PullRequestContributorInsightsDto.repos p))
                   (GetPrevDateISOString now (PageOptionsDto.prev_days_start_date p))
                   (PageOptionsDto.range_days p))
     \<and> previous_month_prs table
           (toLowerCase (PullRequestContributorInsightsDto.repos p))
           (GetPrevDateISOString now (PageOptionsDto.prev_days_start_date p))
           (PageOptionsDto.range_days p) \<noteq> []"
  unfolding cohort_logins_def findAuthorsWithFilters_cte_def Let_def keys_of_cte
  by (auto simp: in_applyActiveContributorsFilter)

lemma new_cohort_logins:
  "l \<in> set (cohort_logins table now p ''new'') \<longleftrightarrow>
     (\<exists>e \<in> set table. pr_author_login e = l
         \<and> in_window (GetPrevDateISOString now (PageOptionsDto.prev_days_start_date p))
              (PageOptionsDto.range_days p) e
         \<and> (PullRequestContributorInsightsDto.repos p = []
             \<or> repo_name_in (split CHR '',''
                  (toLowerCase (PullRequestContributorInsightsDto.repos p))) e))
     \<and> l \<in> set (current_month_prs table
                   (toLowerCase (PullRequestContributorInsightsDto.repos p))
                   (GetPrevDateISOString now (PageOptionsDto.prev_days_start_date p))
                   (PageOptionsDto.range_days p))
     \<and> l \<notin> set (previous_month_prs table
           (toLowerCase (PullRequestContributorInsightsDto.repos p))
           (GetPrevDateISOString now (PageOptionsDto.prev_days_start_date p))
           (PageOptionsDto.range_days p))"
  unfolding cohort_logins_def findAuthorsWithFilters_cte_def Let_def keys_of_cte
  by (auto simp: in_applyNewContributorsFilter)

lemma alumni_cohort_logins:
  "l \<in> set (cohort_logins table now p ''alumni'') \<longleftrightarrow>
     (\<exists>e \<in> set table. pr_author_login e = l
         \<and> in_window (GetPrevDateISOString now (PageOptionsDto.prev_days_start_date p))
              (PageOptionsDto.range_days p + PageOptionsDto.range_days p) e
         \<and> (PullRequestContributorInsightsDto.repos p = []
             \<or> repo_name_in (split CHR '',''
                  (toLowerCase (PullRequestContributorInsightsDto.repos p))) e))
     \<and> l \<notin> set (current_month_prs table
                   (toLowerCase (PullRequestContributorInsightsDto.repos p))
                   (GetPrevDateISOString now (PageOptionsDto.prev_days_start_date p))
                   (PageOptionsDto.range_days p))
     \<and> l \<in> set (previous_month_prs table
           (toLowerCase (PullRequestContributorInsightsDto.repos p))
           (GetPrevDateISOString now (PageOptionsDto.prev_days_start_date p))
           (PageOptionsDto.range_days p))"
  unfolding cohort_logins_def findAuthorsWithFilters_cte_def Let_def keys_of_cte
  by (auto simp: in_applyAlumniContributorsFilter)

text \<open>
  C3, at a failing input. \<open>alice\<close> has an event in the current window and none in
  the previous window; \<open>bob\<close> has one in the previous window only, in the same
  repository. The active cohort is \<open>alice\<close>: the previous derived table is not empty
  (it holds \<open>bob\<close>), and that is all the active filter asks of it.
\<close>

theorem active_cohort_without_previous_events:
  "cohort_logins example_cohort_table 8640000 example_cohort_options ''active'' = [''alice'']
   \<and> map author_login
        (data (findAuthorsWithFilters example_cohort_table 8640000 example_cohort_options ''active''))
       = [''alice'']
   \<and> filter (\<lambda>e. toLowerCase (pr_author_login e) = ''alice''
                 \<and> 8640000 - days 60 \<le> event_time e \<and> event_time e \<le> 8640000 - days 30)
        example_cohort_table = []
   \<and> previous_month_prs example_cohort_table ''o/r'' 8640000 30 = [''bob'']"
  by code_simp

text \<open>
  C4, at two failing inputs. On the table above \<open>alice\<close>, present in the current
  window, is in the active cohort and in the new cohort. A login with an upper-case
  letter, \<open>Alice\<close>, present in the current window (the cohort \<open>all\<close> lists it), is
  in neither: the joins compare the stored login with the lower-cased logins of the
  derived tables.
\<close>

theorem current_login_in_two_cohorts:
  "cohort_logins example_cohort_table 8640000 example_cohort_options ''active'' = [''alice'']
   \<and> cohort_logins example_cohort_table 8640000 example_cohort_options ''new'' = [''alice'']
   \<and> cohort_logins [example_event 1 1 ''o/r'' ''Alice'' 7776000] 8640000
         example_cohort_options ''active'' = []
   \<and> cohort_logins [example_event 1 1 ''o/r'' ''Alice'' 7776000] 8640000
         example_cohort_options ''new'' = []
   \<and> cohort_logins [example_event 1 1 ''o/r'' ''Alice'' 7776000] 8640000
         example_cohort_options ''all'' = [''Alice'']"
  by code_simp

subsection \<open>The check of the criteria\<close>

text \<open>
  C8 (as amended). The PR histogram and the fork histogram raise the validation
  error exactly when none of contributor, repo, repoIds, topic, filter is supplied;
  the author search raises it exactly when none of repos, repoIds, topic, filter is
  supplied, a contributor not being one of its criteria. When its check passes, the
  author search returns a page, and the PR histogram (with a positive bucket width)
  returns a histogram: neither fails on account of missing criteria.
\<close>

theorem criteria_checks:
  "(genPrHistogram table now rs options = Inl BadRequestException \<longleftrightarrow>
       \<not> truthy (PullRequestHistogramDto.contributor options)
     \<and> \<not> truthy (PullRequestHistogramDto.repo options)
     \<and> \<not> truthy (PullRequestHistogramDto.repoIds options)
     \<and> \<not> truthy (PullRequestHistogramDto.topic options)
     \<and> \<not> truthy (PullRequestHistogramDto.filter_opt options))
   \<and> (genForkHistogram forks now foptions = Inl BadRequestException \<longleftrightarrow>
       \<not> truthy (ForksHistogramDto.contributor foptions)
     \<and> \<not> truthy (ForksHistogramDto.repo foptions)
     \<and> \<not> truthy (ForksHistogramDto.repoIds foptions)
     \<and> \<not> truthy (ForksHistogramDto.topic foptions)
     \<and> \<not> truthy (ForksHistogramDto.filter_opt foptions))
   \<and> (searchAuthors table now rs p = Inl BadRequestException \<longleftrightarrow>
       \<not> truthy (PullRequestContributorOptionsDto.repos p)
     \<and> \<not> truthy (PullRequestContributorOptionsDto.repoIds p)
     \<and> \<not> truthy (PullRequestContributorOptionsDto.topic p)
     \<and> \<not> truthy (PullRequestContributorOptionsDto.filter_opt p))
   \<and> (searchAuthors table now rs p \<noteq> Inl BadRequestException \<longrightarrow>
        (\<exists>page. searchAuthors table now rs p = Inr page))
   \<and> (genPrHistogram table now rs options \<noteq> Inl BadRequestException \<and> 0 < width options \<longrightarrow>
        (\<exists>hist. genPrHistogram table now rs options = Inr hist))"
  by (simp add: genPrHistogram_def genForkHistogram_def searchAuthors_def Let_def
      split: option.splits)

theorem criteria_checks_witness:
  "searchAuthors [] 1000 no_repos example_author_options \<noteq> Inl BadRequestException
   \<and> (\<exists>page. searchAuthors [] 1000 no_repos example_author_options = Inr page)
   \<and> genPrHistogram [] 1000 no_repos example_histogram_options \<noteq> Inl BadRequestException
   \<and> 0 < width example_histogram_options
   \<and> (\<exists>hist. genPrHistogram [] 1000 no_repos example_histogram_options = Inr hist)
   \<and> genForkHistogram [] 1000 example_forks_options \<noteq> Inl BadRequestException"
proof -
  have a: "truthy (PullRequestContributorOptionsDto.repos example_author_options)"
    by (simp add: example_author_options_def)
  have b: "truthy (PullRequestHistogramDto.repo example_histogram_options)"
    "0 < width example_histogram_options"
    by (simp_all add: example_histogram_options_def)
  have c: "truthy (ForksHistogramDto.repo example_forks_options)"
    by (simp add: example_forks_options_def)
  from criteria_checks[of "[]" 1000 no_repos example_histogram_options "[]" example_forks_options
      example_author_options] a b c
  show ?thesis by blast
qed

text \<open>
  C8 as stated fails: with a contributor as the only criterion the author search
  raises the validation error; and the fork histogram, whose check the same lone
  contributor passes, then calls \<open>toLowerCase\<close> on the undefined \<open>repo\<close>.
\<close>

theorem criteria_checks_counterexample:
  "truthy (PullRequestContributorOptionsDto.contributor
      (example_author_options\<lparr>PullRequestContributorOptionsDto.contributor := Some ''alice'',
                               PullRequestContributorOptionsDto.repos := None\<rparr>))
   \<and> searchAuthors [] 1000 no_repos
       (example_author_options\<lparr>PullRequestContributorOptionsDto.contributor := Some ''alice'',
                                PullRequestContributorOptionsDto.repos := None\<rparr>)
       = Inl BadRequestException
   \<and> truthy (ForksHistogramDto.contributor
       (example_forks_options\<lparr>ForksHistogramDto.contributor := Some ''alice'',
                              ForksHistogramDto.repo := None\<rparr>))
   \<and> genForkHistogram [] 1000
       (example_forks_options\<lparr>ForksHistogramDto.contributor := Some ''alice'',
                              ForksHistogramDto.repo := None\<rparr>) = Inl TypeError"
  by (simp add: searchAuthors_def genForkHistogram_def example_author_options_def
      example_forks_options_def)

end
